theory Spec2Isabelle
  imports Complex_Main
begin

section \<open>JavaScript numbers\<close>

text \<open>
  A JavaScript number is an IEEE 754 binary64 value. A finite one is modelled by the real
  number it denotes; the two zeros are one value, which is sound for this program: it only
  divides by and multiplies with positive literals, compares with \<^verbatim>\<open>===\<close> and \<^verbatim>\<open><\<close>
  (under which \<^verbatim>\<open>-0\<close> and \<^verbatim>\<open>+0\<close> are equal) and prints with \<^verbatim>\<open>toFixed\<close>.
\<close>

datatype number = NaN | NegInfinity | Finite real | Infinity

fun bitlength :: "nat \<Rightarrow> nat" where
  "bitlength n = (if n = 0 then 0 else Suc (bitlength (n div 2)))"

declare bitlength.simps [simp del]

definition pow2 :: "int \<Rightarrow> real" where
  "pow2 k = (if 0 \<le> k then 2 ^ nat k else 1 / 2 ^ nat (- k))"

text \<open>The binary exponent \<open>\<lfloor>log\<^sub>2 a\<rfloor>\<close> of a positive real, by integer arithmetic.\<close>

definition ilog2 :: "real \<Rightarrow> int" where
  "ilog2 a = (if 1 \<le> a then int (bitlength (nat \<lfloor>a\<rfloor>)) - 1
              else - int (bitlength (nat (\<lceil>1 / a\<rceil> - 1))))"

definition round_half_even :: "real \<Rightarrow> int" where
  "round_half_even x = (let f = \<lfloor>x\<rfloor>; d = x - of_int f
     in if d < 1 / 2 then f else if 1 / 2 < d then f + 1
        else if even f then f else f + 1)"

text \<open>
  Rounding of an exact result to binary64, round to nearest, ties to even: 53 significant
  bits, the least exponent of the last place \<open>-1074\<close> (subnormal numbers), overflow to an
  infinity from \<open>2\<^sup>1\<^sup>0\<^sup>2\<^sup>4\<close> on.
\<close>

definition round_double :: "real \<Rightarrow> number" where
  "round_double x = (if x = 0 then Finite 0 else
     let a = \<bar>x\<bar>;
         e = max (ilog2 a - 52) (- 1074);
         r = of_int (round_half_even (a / pow2 e)) * pow2 e
     in if pow2 1024 \<le> r then (if x < 0 then NegInfinity else Infinity)
        else Finite (if x < 0 then - r else r))"

text \<open>
  \<^verbatim>\<open>x / c\<close> and \<^verbatim>\<open>x * c\<close> for a positive finite literal \<open>c\<close>, given by the real number
  the literal denotes (\<^verbatim>\<open>1000\<close> and \<^verbatim>\<open>60\<close> are binary64 values, \<^verbatim>\<open>0.621371\<close> is
  first rounded to one): not-a-number and the infinities are kept, a finite operand gives the
  exact result rounded.
\<close>

definition divide_literal :: "number \<Rightarrow> real \<Rightarrow> number" where
  "divide_literal x c = (case x of Finite q \<Rightarrow> round_double (q / c) | _ \<Rightarrow> x)"

definition times_literal :: "number \<Rightarrow> real \<Rightarrow> number" where
  "times_literal x c = (case x of
       Finite q \<Rightarrow> (case round_double c of Finite c' \<Rightarrow> round_double (q * c') | _ \<Rightarrow> NaN)
     | _ \<Rightarrow> x)"

text \<open>
  The strings \<^verbatim>\<open>Number.prototype.toFixed(2)\<close> can return, by their form: \<^verbatim>\<open>"NaN"\<close>,
  \<^verbatim>\<open>"Infinity"\<close> and \<^verbatim>\<open>"-Infinity"\<close>, a sign and the digits of an integer \<open>n\<close> with the
  point before the last two (\<open>n\<close> hundredths), and below \<open>-10\<^sup>2\<^sup>1\<close> or from \<open>10\<^sup>2\<^sup>1\<close> on the
  sign and the shortest decimal that reads back as the magnitude.
\<close>

datatype fixed =
    NaNString
  | InfinityString bool
  | Hundredths bool nat
  | Shortest bool real

text \<open>
  \<^verbatim>\<open>toFixed(2)\<close>: the sign is split off, and \<open>n\<close> is the integer for which \<open>n / 100\<close> is
  nearest to the magnitude, the larger one of two.
\<close>

definition toFixed2 :: "number \<Rightarrow> fixed" where
  "toFixed2 x = (case x of
       NaN \<Rightarrow> NaNString
     | Infinity \<Rightarrow> InfinityString False
     | NegInfinity \<Rightarrow> InfinityString True
     | Finite q \<Rightarrow>
         (if 10 ^ 21 \<le> \<bar>q\<bar> then Shortest (q < 0) \<bar>q\<bar>
          else Hundredths (q < 0) (nat \<lfloor>\<bar>q\<bar> * 100 + 1 / 2\<rfloor>)))"

text \<open>
  \<^verbatim>\<open>parseFloat\<close> on such a string: the binary64 value nearest to the decimal read (the
  conversion is taken as correctly rounded, as the engines do it).
\<close>

definition parseFloat :: "fixed \<Rightarrow> number" where
  "parseFloat s = (case s of
       NaNString \<Rightarrow> NaN
     | InfinityString neg \<Rightarrow> (if neg then NegInfinity else Infinity)
     | Hundredths neg n \<Rightarrow> round_double ((if neg then - 1 else 1) * (of_nat n / 100))
     | Shortest neg a \<Rightarrow> Finite (if neg then - a else a))"

text \<open>\<^verbatim>\<open>a < b\<close> and \<^verbatim>\<open>a === b\<close> on numbers: false whenever an operand is not-a-number.\<close>

fun less_number :: "number \<Rightarrow> number \<Rightarrow> bool" where
  "less_number NaN b = False"
| "less_number a NaN = False"
| "less_number a NegInfinity = False"
| "less_number NegInfinity b = True"
| "less_number Infinity b = False"
| "less_number (Finite p) Infinity = True"
| "less_number (Finite p) (Finite q) = (p < q)"

definition strict_equals :: "number \<Rightarrow> number \<Rightarrow> bool" where
  "strict_equals a b = (a \<noteq> NaN \<and> b \<noteq> NaN \<and> a = b)"

section \<open>Values, property reads and thrown errors\<close>

text \<open>
  The values the program handles: what \<^verbatim>\<open>JSON.parse\<close> builds, and \<^verbatim>\<open>undefined\<close>. An
  object is its list of properties, read with \<open>map_of\<close>.
\<close>

datatype val =
    Undefined
  | Null
  | Boolean bool
  | Number number
  | String string
  | Array "val list"
  | Object "(string \<times> val) list"

datatype errorName = Error | TypeError | SyntaxError | DOMException

datatype exn = Thrown errorName string

fun message :: "exn \<Rightarrow> string" where
  "message (Thrown c m) = m"

text \<open>
  What \<^verbatim>\<open>fetch\<close> and \<^verbatim>\<open>Response.json\<close> reject with, by the Fetch standard: a
  \<^verbatim>\<open>TypeError\<close> (no connection, a body that cannot be read), a \<^verbatim>\<open>SyntaxError\<close> (a body
  that is not JSON) or a \<^verbatim>\<open>DOMException\<close> (an abort), each with the message the browser
  gives it; never a plain \<^verbatim>\<open>Error\<close>.
\<close>

datatype rejection =
    RejectTypeError string
  | RejectSyntaxError string
  | RejectDOMException string

fun rejected :: "rejection \<Rightarrow> exn" where
  "rejected (RejectTypeError m) = Thrown TypeError m"
| "rejected (RejectSyntaxError m) = Thrown SyntaxError m"
| "rejected (RejectDOMException m) = Thrown DOMException m"

text \<open>
  What the browser decides and the source does not: how the network answers each request
  (given the URLs requested so far and the one requested now), how a string and how an array
  or object converts to a number, and the message of the \<^verbatim>\<open>TypeError\<close> for a property
  read on \<^verbatim>\<open>undefined\<close> or \<^verbatim>\<open>null\<close>. Every request is taken to settle.
\<close>

datatype body = Malformed rejection | Json val

datatype response = NetworkError rejection | Response nat body

record browser =
  network :: "string list \<Rightarrow> string \<Rightarrow> response"
  StringToNumber :: "string \<Rightarrow> number"
  ObjectToNumber :: "val \<Rightarrow> exn + number"
  readErrorMessage :: "val \<Rightarrow> string \<Rightarrow> string"

text \<open>
  \<^verbatim>\<open>v.p\<close> and \<^verbatim>\<open>v[0]\<close> for the property names this program reads (\<^verbatim>\<open>status\<close>,
  \<^verbatim>\<open>rows\<close>, \<^verbatim>\<open>elements\<close>, \<^verbatim>\<open>distance\<close>, \<^verbatim>\<open>duration\<close>, \<^verbatim>\<open>value\<close> and \<^verbatim>\<open>0\<close>), none of
  which a prototype provides: a read on \<^verbatim>\<open>undefined\<close> or \<^verbatim>\<open>null\<close> throws, an array and
  a string have index \<^verbatim>\<open>0\<close> when they are not empty, every other read is \<^verbatim>\<open>undefined\<close>.
\<close>

fun Get :: "browser \<Rightarrow> val \<Rightarrow> string \<Rightarrow> exn + val" where
  "Get env Undefined p = Inl (Thrown TypeError (readErrorMessage env Undefined p))"
| "Get env Null p = Inl (Thrown TypeError (readErrorMessage env Null p))"
| "Get env (Object kvs) p = Inr (case map_of kvs p of None \<Rightarrow> Undefined | Some v \<Rightarrow> v)"
| "Get env (Array xs) p =
     Inr (if p = ''0'' then (case xs of [] \<Rightarrow> Undefined | x # _ \<Rightarrow> x) else Undefined)"
| "Get env (String s) p =
     Inr (if p = ''0'' then (case s of [] \<Rightarrow> Undefined | c # _ \<Rightarrow> String [c]) else Undefined)"
| "Get env (Boolean b) p = Inr Undefined"
| "Get env (Number n) p = Inr Undefined"

fun ToNumber :: "browser \<Rightarrow> val \<Rightarrow> exn + number" where
  "ToNumber env Undefined = Inr NaN"
| "ToNumber env Null = Inr (Finite 0)"
| "ToNumber env (Boolean b) = Inr (Finite (if b then 1 else 0))"
| "ToNumber env (Number n) = Inr n"
| "ToNumber env (String s) = Inr (StringToNumber env s)"
| "ToNumber env (Array xs) = ObjectToNumber env (Array xs)"
| "ToNumber env (Object kvs) = ObjectToNumber env (Object kvs)"

text \<open>Sequencing of steps that may throw: the first thrown error ends the computation.\<close>

definition andThen :: "exn + 'a \<Rightarrow> ('a \<Rightarrow> exn + 'b) \<Rightarrow> exn + 'b" where
  "andThen m f = (case m of Inl e \<Rightarrow> Inl e | Inr x \<Rightarrow> f x)"

section \<open>The adapter \<^verbatim>\<open>getDistance\<close>\<close>

record result =
  distanceKm :: number
  distanceMiles :: number
  durationMins :: number

definition url :: "string \<Rightarrow> string \<Rightarrow> string" where
  "url sourceZip destZip =
     ''https://distancefindapi.onrender.com/api/distance?origins='' @ sourceZip
       @ ''&destinations='' @ destZip"

text \<open>The expression \<^verbatim>\<open>data.rows[0].elements[0]\<close>.\<close>

definition firstElement :: "browser \<Rightarrow> val \<Rightarrow> exn + val" where
  "firstElement env data =
     andThen (Get env data ''rows'') (\<lambda>rows.
     andThen (Get env rows ''0'') (\<lambda>row.
     andThen (Get env row ''elements'') (\<lambda>elements.
     Get env elements ''0'')))"

text \<open>
  The condition of the \<^verbatim>\<open>if\<close>: \<^verbatim>\<open>||\<close> evaluates its right operand only when the left
  one is false.
\<close>

definition noRoute :: "browser \<Rightarrow> val \<Rightarrow> exn + bool" where
  "noRoute env data =
     andThen (Get env data ''status'') (\<lambda>status.
       if status \<noteq> String ''OK'' then Inr True
       else andThen (firstElement env data) (\<lambda>element.
            andThen (Get env element ''status'') (\<lambda>status'.
            Inr (status' \<noteq> String ''OK''))))"

text \<open>The body of \<^verbatim>\<open>getDistance\<close> from the parsed \<^verbatim>\<open>data\<close> on.\<close>

definition getDistance_data :: "browser \<Rightarrow> string \<Rightarrow> string \<Rightarrow> val \<Rightarrow> exn + result" where
  "getDistance_data env sourceZip destZip data =
     andThen (noRoute env data) (\<lambda>no.
       if no then Inl (Thrown Error (''No route found from '' @ sourceZip @ '' to '' @ destZip))
       else
         andThen (firstElement env data) (\<lambda>element.
         andThen (Get env element ''distance'') (\<lambda>distance.
         andThen (Get env distance ''value'') (\<lambda>meters.
         andThen (ToNumber env meters) (\<lambda>m.
         let distanceKm = divide_literal m 1000;
             distanceMiles = times_literal distanceKm (621371 / 1000000)
         in
         andThen (Get env element ''duration'') (\<lambda>duration.
         andThen (Get env duration ''value'') (\<lambda>seconds.
         andThen (ToNumber env seconds) (\<lambda>s.
         let durationMins = divide_literal s 60
         in Inr \<lparr> distanceKm = parseFloat (toFixed2 distanceKm),
                  distanceMiles = parseFloat (toFixed2 distanceMiles),
                  durationMins = parseFloat (toFixed2 durationMins) \<rparr>))))))))"

text \<open>
  \<^verbatim>\<open>await fetch(...)\<close> rejects with the network's error; \<^verbatim>\<open>await res.json()\<close> rejects with
  the parser's error; the HTTP status of the response is not read.
\<close>

fun getDistance_response :: "browser \<Rightarrow> string \<Rightarrow> string \<Rightarrow> response \<Rightarrow> exn + result" where
  "getDistance_response env sourceZip destZip (NetworkError e) = Inl (rejected e)"
| "getDistance_response env sourceZip destZip (Response code (Malformed e)) = Inl (rejected e)"
| "getDistance_response env sourceZip destZip (Response code (Json data)) =
     getDistance_data env sourceZip destZip data"

text \<open>
  The adapter: one request, appended to the list of the URLs requested so far, then the
  body above on its response.
\<close>

definition getDistance ::
  "browser \<Rightarrow> string \<Rightarrow> string \<Rightarrow> string list \<Rightarrow> (exn + result) \<times> string list" where
  "getDistance env sourceZip destZip sent =
     (let u = url sourceZip destZip
      in (getDistance_response env sourceZip destZip (network env sent u), sent @ [u]))"

section \<open>The form handler \<^verbatim>\<open>handleSubmit\<close>\<close>

text \<open>
  A string stands for its UTF-8 bytes. The code points \<^verbatim>\<open>String.prototype.trim\<close> removes
  are the white space and the line terminators of ECMAScript: U+0009 to U+000D, U+0020,
  U+00A0, U+1680, U+2000 to U+200A, U+2028, U+2029, U+202F, U+205F, U+3000 and U+FEFF (the
  space separators of Unicode among them). Here they are, each as its bytes.
\<close>

definition whiteSpace :: "string list" where
  "whiteSpace =
     [[CHR 0x09], [CHR 0x0A], [CHR 0x0B], [CHR 0x0C], [CHR 0x0D], [CHR 0x20],
      [CHR 0xC2, CHR 0xA0],
      [CHR 0xE1, CHR 0x9A, CHR 0x80],
      [CHR 0xE2, CHR 0x80, CHR 0x80], [CHR 0xE2, CHR 0x80, CHR 0x81],
      [CHR 0xE2, CHR 0x80, CHR 0x82], [CHR 0xE2, CHR 0x80, CHR 0x83],
      [CHR 0xE2, CHR 0x80, CHR 0x84], [CHR 0xE2, CHR 0x80, CHR 0x85],
      [CHR 0xE2, CHR 0x80, CHR 0x86], [CHR 0xE2, CHR 0x80, CHR 0x87],
      [CHR 0xE2, CHR 0x80, CHR 0x88], [CHR 0xE2, CHR 0x80, CHR 0x89],
      [CHR 0xE2, CHR 0x80, CHR 0x8A],
      [CHR 0xE2, CHR 0x80, CHR 0xA8], [CHR 0xE2, CHR 0x80, CHR 0xA9],
      [CHR 0xE2, CHR 0x80, CHR 0xAF],
      [CHR 0xE2, CHR 0x81, CHR 0x9F],
      [CHR 0xE3, CHR 0x80, CHR 0x80],
      [CHR 0xEF, CHR 0xBB, CHR 0xBF]]"

text \<open>
  Removal of every leading occurrence of one of the byte sequences \<open>ws\<close>. In UTF-8 no
  code point's bytes begin or end another's, so a leading sequence of \<open>whiteSpace\<close> is a
  leading white space code point, and a trailing one a trailing white space code point.
\<close>

function stripLeading :: "string list \<Rightarrow> string \<Rightarrow> string" where
  "stripLeading ws s =
     (case find (\<lambda>w. w \<noteq> [] \<and> take (length w) s = w) ws of
        None \<Rightarrow> s
      | Some w \<Rightarrow> stripLeading ws (drop (length w) s))"
  by pat_completeness auto

termination
proof (relation "measure (\<lambda>(ws, s). length s)")
  show "wf (measure (\<lambda>(ws, s). length s))" by simp
next
  fix ws :: "string list" and s w :: string
  assume "find (\<lambda>w. w \<noteq> [] \<and> take (length w) s = w) ws = Some w"
  then have w: "w \<noteq> []" and t: "take (length w) s = w"
    by (auto simp: find_Some_iff)
  from t have "length (take (length w) s) = length w" by simp
  then have "length w \<le> length s" by simp
  with w show "((ws, drop (length w) s), (ws, s)) \<in> measure (\<lambda>(ws, s). length s)"
    by (cases w) auto
qed

declare stripLeading.simps [simp del]

text \<open>\<^verbatim>\<open>String.prototype.trim\<close>: the white space at both ends is removed.\<close>

definition trim :: "string \<Rightarrow> string" where
  "trim s = rev (stripLeading (map rev whiteSpace) (rev (stripLeading whiteSpace s)))"

text \<open>
  An element of \<^verbatim>\<open>newResults\<close> is \<^verbatim>\<open>{ source: zip, ...res }\<close> or
  \<^verbatim>\<open>{ source: zip, error: err.message }\<close>. The three properties the spread copies come
  together, so they are one optional field \<open>result\<close>; \<^verbatim>\<open>r.distanceKm\<close> is \<^verbatim>\<open>undefined\<close>
  when it is \<open>None\<close>, and \<^verbatim>\<open>r.error\<close> is \<^verbatim>\<open>undefined\<close> when \<open>error\<close> is \<open>None\<close>. An element
  of \<^verbatim>\<open>finalResults\<close> has the property \<^verbatim>\<open>isMin\<close> as well.
\<close>

record entry =
  source :: string
  result :: "result option"
  error :: "string option"

record outcome = entry +
  isMin :: bool

text \<open>The body of the loop after the adapter has settled: the \<^verbatim>\<open>try\<close> and the \<^verbatim>\<open>catch\<close> branch.\<close>

definition entryOf :: "string \<Rightarrow> exn + result \<Rightarrow> entry" where
  "entryOf zipCode out = (case out of
       Inr res \<Rightarrow> \<lparr> source = zipCode, result = Some res, error = None \<rparr>
     | Inl err \<Rightarrow> \<lparr> source = zipCode, result = None, error = Some (message err) \<rparr>)"

text \<open>
  \<^verbatim>\<open>for (let zip of sourceZips)\<close>, with \<^verbatim>\<open>newResults\<close> and the list of the URLs requested
  so far as the state (\<open>zipCode\<close> is the loop variable \<^verbatim>\<open>zip\<close>).
\<close>

fun loop ::
  "browser \<Rightarrow> string \<Rightarrow> string list \<Rightarrow> entry list \<times> string list \<Rightarrow> entry list \<times> string list"
where
  "loop env destZip [] (newResults, sent) = (newResults, sent)"
| "loop env destZip (zipCode # zips) (newResults, sent) =
     (case getDistance env (trim zipCode) (trim destZip) sent of
        (out, sent') \<Rightarrow> loop env destZip zips (newResults @ [entryOf zipCode out], sent'))"

text \<open>\<^verbatim>\<open>!r.error\<close>: true for \<^verbatim>\<open>undefined\<close> and for the empty string.\<close>

definition noError :: "string option \<Rightarrow> bool" where
  "noError e = (case e of None \<Rightarrow> True | Some m \<Rightarrow> m = [])"

text \<open>\<^verbatim>\<open>newResults.filter(r => !r.error).map(r => r.distanceKm)\<close>; \<open>None\<close> is \<^verbatim>\<open>undefined\<close>.\<close>

definition validDistances :: "entry list \<Rightarrow> number option list" where
  "validDistances newResults =
     map (\<lambda>r. map_option distanceKm (result r)) (filter (\<lambda>r. noError (error r)) newResults)"

text \<open>
  \<^verbatim>\<open>Math.min\<close>: every argument is converted to a number (\<^verbatim>\<open>undefined\<close> to not-a-number),
  the least one so far starts at \<open>+\<infinity>\<close>, and a not-a-number argument makes the result
  not-a-number.
\<close>

fun Math_min_from :: "number \<Rightarrow> number option list \<Rightarrow> number" where
  "Math_min_from lowest [] = lowest"
| "Math_min_from lowest (None # xs) = NaN"
| "Math_min_from lowest (Some n # xs) =
     (if n = NaN then NaN
      else Math_min_from (if less_number n lowest then n else lowest) xs)"

definition Math_min :: "number option list \<Rightarrow> number" where
  "Math_min xs = Math_min_from Infinity xs"

text \<open>\<^verbatim>\<open>{ ...r, isMin: !r.error && r.distanceKm === minDistance }\<close>.\<close>

definition withIsMin :: "number \<Rightarrow> entry \<Rightarrow> outcome" where
  "withIsMin minDistance r =
     \<lparr> source = source r, result = result r, error = error r,
       isMin = (noError (error r) \<and>
                (case result r of None \<Rightarrow> False
                 | Some res \<Rightarrow> strict_equals (distanceKm res) minDistance)) \<rparr>"

text \<open>
  Lines 42 to 59 of the handler, which the specification calls \<^verbatim>\<open>computeBatch\<close>: the
  loop, the least valid distance, the flags.
\<close>

definition computeBatch ::
  "browser \<Rightarrow> string list \<Rightarrow> string \<Rightarrow> string list \<Rightarrow> outcome list \<times> string list" where
  "computeBatch env sourceZips destZip sent =
     (case loop env destZip sourceZips ([], sent) of
        (newResults, sent') \<Rightarrow>
          (let minDistance = Math_min (validDistances newResults)
           in (map (withIsMin minDistance) newResults, sent')))"

text \<open>
  What the adapter returned to each pass of the loop, in order: the outcomes the claims
  speak of.
\<close>

fun outcomes :: "browser \<Rightarrow> string \<Rightarrow> string list \<Rightarrow> string list \<Rightarrow> (exn + result) list" where
  "outcomes env destZip [] sent = []"
| "outcomes env destZip (zipCode # zips) sent =
     (case getDistance env (trim zipCode) (trim destZip) sent of
        (out, sent') \<Rightarrow> out # outcomes env destZip zips sent')"

record state =
  sourceZip1 :: string
  sourceZip2 :: string
  sourceZip3 :: string
  sourceZip4 :: string
  destZip :: string
  results :: "outcome list"
  formError :: string
  loading :: bool
  darkMode :: bool

definition sourceZips :: "state \<Rightarrow> string list" where
  "sourceZips s = [sourceZip1 s, sourceZip2 s, sourceZip3 s, sourceZip4 s]"

text \<open>
  The handler, from the component's state and the URLs requested so far to the state it
  leaves (\<open>formError\<close> is the state variable \<^verbatim>\<open>error\<close>) and the URLs requested.
\<close>

definition handleSubmit :: "browser \<Rightarrow> state \<Rightarrow> string list \<Rightarrow> state \<times> string list" where
  "handleSubmit env s sent =
     (let s' = s\<lparr> formError := [], results := [], loading := True \<rparr>
      in case computeBatch env (sourceZips s) (destZip s) sent of
           (finalResults, sent') \<Rightarrow> (s'\<lparr> results := finalResults, loading := False \<rparr>, sent'))"

text \<open>\<^verbatim>\<open>a <= b\<close> on numbers.\<close>

definition less_eq_number :: "number \<Rightarrow> number \<Rightarrow> bool" where
  "less_eq_number a b = (a \<noteq> NaN \<and> b \<noteq> NaN \<and> \<not> less_number b a)"

section \<open>Notions the properties are stated with\<close>

text \<open>
  The elements of \<^verbatim>\<open>newResults\<close> after the loop, from the sources and the adapter's
  outcomes.
\<close>

definition entries :: "browser \<Rightarrow> string \<Rightarrow> string list \<Rightarrow> string list \<Rightarrow> entry list" where
  "entries env d zs sent = map2 entryOf zs (outcomes env d zs sent)"

text \<open>Arguments of \<^verbatim>\<open>Math.min\<close> that are all numbers other than not-a-number.\<close>

definition numeric :: "number option list \<Rightarrow> bool" where
  "numeric xs = (\<forall>x \<in> set xs. \<exists>n. x = Some n \<and> n \<noteq> NaN)"

text \<open>
  The upstream answer of the documented shape
  \<^verbatim>\<open>{status:"OK", rows:[{elements:[{status:"OK", distance:{value:m}, duration:{value:t}}]}]}\<close>.
\<close>

definition upstreamOK :: "number \<Rightarrow> number \<Rightarrow> val" where
  "upstreamOK meters seconds =
     Object [(''status'', String ''OK''),
             (''rows'', Array [Object [(''elements'', Array [Object
                [(''status'', String ''OK''),
                 (''distance'', Object [(''value'', Number meters)]),
                 (''duration'', Object [(''value'', Number seconds)])]])]])]"

section \<open>Concrete browsers and form states for the examples\<close>

text \<open>
  A browser whose network answers by a table from URLs to responses and fails to connect
  for any other URL. Its two conversions are placeholders: the examples have numbers where
  numbers are converted.
\<close>

definition sampleBrowser :: "(string \<times> response) list \<Rightarrow> browser" where
  "sampleBrowser table =
     \<lparr> network = (\<lambda>sent u. case map_of table u of
                      Some r \<Rightarrow> r
                    | None \<Rightarrow> NetworkError (RejectTypeError ''Failed to fetch'')),
       StringToNumber = (\<lambda>s. NaN),
       ObjectToNumber = (\<lambda>v. Inr NaN),
       readErrorMessage = (\<lambda>v p. ''Cannot read properties of ''
                             @ (if v = Null then ''null'' else ''undefined'')
                             @ '' (reading '' @ [CHR 0x27] @ p @ [CHR 0x27] @ '')'') \<rparr>"

definition formState :: state where
  "formState =
     \<lparr> sourceZip1 = ''95131'', sourceZip2 = '' 32220'', sourceZip3 = ''07305 '',
       sourceZip4 = ''75050'', destZip = ''60601 '', results = [], formError = [],
       loading = False, darkMode = False \<rparr>"

text \<open>Four routes of 12345 m, 5000 m, 7500 m and 20000 m, and what the adapter returns for them.\<close>

definition fourRoutes :: "(string \<times> response) list" where
  "fourRoutes =
     [(url ''95131'' ''60601'', Response 200 (Json (upstreamOK (Finite 12345) (Finite 678)))),
      (url ''32220'' ''60601'', Response 200 (Json (upstreamOK (Finite 5000) (Finite 300)))),
      (url ''07305'' ''60601'', Response 200 (Json (upstreamOK (Finite 7500) (Finite 450)))),
      (url ''75050'' ''60601'', Response 200 (Json (upstreamOK (Finite 20000) (Finite 1200))))]"

definition result12345 :: result where
  "result12345 = \<lparr> distanceKm = Finite (6952431924753203 / 562949953421312),
                    distanceMiles = Finite (4317826142741463 / 562949953421312),
                    durationMins = Finite (3180667236830413 / 281474976710656) \<rparr>"

definition result5000 :: result where
  "result5000 = \<lparr> distanceKm = Finite 5,
                   distanceMiles = Finite (7003097420561121 / 2251799813685248),
                   durationMins = Finite 5 \<rparr>"

definition result7500 :: result where
  "result7500 = \<lparr> distanceKm = Finite (15 / 2),
                   distanceMiles = Finite (1311673391471657 / 281474976710656),
                   durationMins = Finite (15 / 2) \<rparr>"

definition result20000 :: result where
  "result20000 = \<lparr> distanceKm = Finite 20,
                    distanceMiles = Finite (1749366980256727 / 140737488355328),
                    durationMins = Finite 20 \<rparr>"

text \<open>A route of 4999 m, which the rounding makes as long as the one of 5000 m.\<close>

definition result4999 :: result where
  "result4999 = \<lparr> distanceKm = Finite 5,
                   distanceMiles = Finite (7003097420561121 / 2251799813685248),
                   durationMins = Finite (1401745384019067 / 281474976710656) \<rparr>"

text \<open>
  Four failures: no connection for the first source, a body that is not JSON for the
  second, a top-level status other than \<^verbatim>\<open>"OK"\<close> for the third, an element status other
  than \<^verbatim>\<open>"OK"\<close> for the fourth.
\<close>

definition zeroResults :: val where
  "zeroResults =
     Object [(''status'', String ''OK''),
             (''rows'', Array [Object [(''elements'', Array [Object
                [(''status'', String ''ZERO_RESULTS'')]])]])]"

definition noRoutes :: "(string \<times> response) list" where
  "noRoutes =
     [(url ''32220'' ''60601'',
         Response 502 (Malformed (RejectSyntaxError ''Unexpected end of JSON input''))),
      (url ''07305'' ''60601'',
         Response 200 (Json (Object [(''status'', String ''INVALID_REQUEST''),
                                     (''rows'', Array [])]))),
      (url ''75050'' ''60601'', Response 200 (Json zeroResults))]"

definition fourErrors :: "exn list" where
  "fourErrors =
     [Thrown TypeError ''Failed to fetch'',
      Thrown SyntaxError ''Unexpected end of JSON input'',
      Thrown Error ''No route found from 07305 to 60601'',
      Thrown Error ''No route found from 75050 to 60601'']"

text \<open>
  Two routes that tie at 5 km after rounding, a source without a route, and a longer route.
\<close>

definition tiedRoutes :: "(string \<times> response) list" where
  "tiedRoutes =
     [(url ''95131'' ''60601'', Response 200 (Json (upstreamOK (Finite 5000) (Finite 300)))),
      (url ''32220'' ''60601'', Response 200 (Json (upstreamOK (Finite 4999) (Finite 299)))),
      (url ''07305'' ''60601'', Response 200 (Json zeroResults)),
      (url ''75050'' ''60601'', Response 200 (Json (upstreamOK (Finite 20000) (Finite 1200))))]"

definition tiedOutcomes :: "(exn + result) list" where
  "tiedOutcomes =
     [Inr result5000, Inr result4999,
      Inl (Thrown Error ''No route found from 07305 to 60601''), Inr result20000]"

definition tiedResults :: "outcome list" where
  "tiedResults =
     [\<lparr> source = ''95131'', result = Some result5000, error = None, isMin = True \<rparr>,
      \<lparr> source = '' 32220'', result = Some result4999, error = None, isMin = True \<rparr>,
      \<lparr> source = ''07305 '', result = None,
        error = Some ''No route found from 07305 to 60601'', isMin = False \<rparr>,
      \<lparr> source = ''75050'', result = Some result20000, error = None, isMin = False \<rparr>]"

text \<open>
  A first element with status \<^verbatim>\<open>"OK"\<close> whose distance and duration objects are empty:
  \<^verbatim>\<open>{status:"OK", rows:[{elements:[{status:"OK", distance:{}, duration:{}}]}]}\<close>. The adapter
  returns a result for it, with not-a-number in its three fields.
\<close>

definition unmeasured :: val where
  "unmeasured =
     Object [(''status'', String ''OK''),
             (''rows'', Array [Object [(''elements'', Array [Object
                [(''status'', String ''OK''),
                 (''distance'', Object []),
                 (''duration'', Object [])]])]])]"

definition unmeasuredRoutes :: "(string \<times> response) list" where
  "unmeasuredRoutes =
     [(url ''95131'' ''60601'', Response 200 (Json unmeasured)),
      (url ''32220'' ''60601'', Response 200 (Json (upstreamOK (Finite 5000) (Finite 300)))),
      (url ''07305'' ''60601'', Response 200 (Json (upstreamOK (Finite 7500) (Finite 450)))),
      (url ''75050'' ''60601'', Response 200 (Json (upstreamOK (Finite 20000) (Finite 1200))))]"

definition resultNaN :: result where
  "resultNaN = \<lparr> distanceKm = NaN, distanceMiles = NaN, durationMins = NaN \<rparr>"

text \<open>
  The two routes that tie at 5 km and the longer route, with a third request that fails
  with an error whose message is empty.
\<close>

definition silentFailure :: "(string \<times> response) list" where
  "silentFailure =
     [(url ''95131'' ''60601'', Response 200 (Json (upstreamOK (Finite 5000) (Finite 300)))),
      (url ''32220'' ''60601'', Response 200 (Json (upstreamOK (Finite 4999) (Finite 299)))),
      (url ''07305'' ''60601'', NetworkError (RejectTypeError [])),
      (url ''75050'' ''60601'', Response 200 (Json (upstreamOK (Finite 20000) (Finite 1200))))]"

definition otherState :: state where
  "otherState = formState \<lparr> results := tiedResults, formError := ''stale'', darkMode := True \<rparr>"

section \<open>Numbers: order, minimum, rounding\<close>

lemma less_number_irrefl: "\<not> less_number a a"
  by (cases a) simp_all

lemma less_number_trans: "less_number a b \<Longrightarrow> less_number b c \<Longrightarrow> less_number a c"
  by (cases a; cases b; cases c) simp_all

lemma less_number_total:
  "a \<noteq> NaN \<Longrightarrow> b \<noteq> NaN \<Longrightarrow> a \<noteq> b \<Longrightarrow> less_number a b \<or> less_number b a"
  by (cases a; cases b) auto

lemma less_number_NaN: "less_number a b \<Longrightarrow> a \<noteq> NaN \<and> b \<noteq> NaN"
  by (cases a; cases b) simp_all

lemma not_less_number_trans:
  "b \<noteq> NaN \<Longrightarrow> \<not> less_number b a \<Longrightarrow> \<not> less_number c b \<Longrightarrow> \<not> less_number c a"
  by (cases a; cases b; cases c) simp_all

lemma not_less_Infinity: "a \<noteq> NaN \<Longrightarrow> \<not> less_number a Infinity \<Longrightarrow> a = Infinity"
  by (cases a) simp_all

lemma Math_min_from_not_numeric: "\<not> numeric xs \<Longrightarrow> Math_min_from lowest xs = NaN"
proof (induction xs arbitrary: lowest)
  case Nil
  then show ?case by (simp add: numeric_def)
next
  case (Cons x xs)
  show ?case
  proof (cases x)
    case None
    then show ?thesis by simp
  next
    case (Some n)
    show ?thesis
    proof (cases "n = NaN")
      case True
      with Some show ?thesis by simp
    next
      case False
      with Some Cons.prems have "\<not> numeric xs" by (simp add: numeric_def)
      with Cons.IH Some False show ?thesis by simp
    qed
  qed
qed

lemma Math_min_from_numeric:
  "numeric xs \<Longrightarrow> lowest \<noteq> NaN \<Longrightarrow>
     Math_min_from lowest xs \<noteq> NaN
     \<and> (Math_min_from lowest xs = lowest \<or> Some (Math_min_from lowest xs) \<in> set xs)
     \<and> \<not> less_number lowest (Math_min_from lowest xs)
     \<and> (\<forall>n. Some n \<in> set xs \<longrightarrow> \<not> less_number n (Math_min_from lowest xs))"
proof (induction xs arbitrary: lowest)
  case Nil
  then show ?case by (simp add: less_number_irrefl)
next
  case (Cons x xs)
  from Cons.prems obtain n where x: "x = Some n" and n: "n \<noteq> NaN" and xs: "numeric xs"
    by (auto simp: numeric_def)
  define l where "l = (if less_number n lowest then n else lowest)"
  have l: "l \<noteq> NaN" using n Cons.prems by (simp add: l_def)
  have step: "Math_min_from lowest (x # xs) = Math_min_from l xs"
    using x n by (simp add: l_def)
  note IH = Cons.IH [OF xs l]
  have ln: "\<not> less_number n l" by (simp add: l_def less_number_irrefl)
  have ll: "\<not> less_number lowest l"
    using less_number_trans [of lowest n lowest] by (auto simp: l_def less_number_irrefl)
  have a: "\<not> less_number n (Math_min_from l xs)"
    using not_less_number_trans [OF l _ ln] IH by blast
  have b: "\<not> less_number lowest (Math_min_from l xs)"
    using not_less_number_trans [OF l _ ll] IH by blast
  have c: "Math_min_from l xs = lowest \<or> Some (Math_min_from l xs) \<in> set (x # xs)"
    using IH x by (auto simp: l_def split: if_splits)
  have d: "\<forall>k. Some k \<in> set (x # xs) \<longrightarrow> \<not> less_number k (Math_min_from l xs)"
    using IH a x by auto
  have e: "Math_min_from l xs \<noteq> NaN" using IH by simp
  show ?case unfolding step using a b c d e by blast
qed

lemma Math_min_NaN: "\<not> numeric xs \<Longrightarrow> Math_min xs = NaN"
  by (simp add: Math_min_def Math_min_from_not_numeric)

lemma Math_min_numeric:
  assumes "numeric xs"
  shows "Math_min xs \<noteq> NaN"
    and "\<And>n. Some n \<in> set xs \<Longrightarrow> \<not> less_number n (Math_min xs)"
    and "xs \<noteq> [] \<Longrightarrow> Some (Math_min xs) \<in> set xs"
proof -
  have inf: "Infinity \<noteq> NaN" by simp
  note M = Math_min_from_numeric [OF assms inf, folded Math_min_def]
  show "Math_min xs \<noteq> NaN" using M by simp
  show low: "\<And>n. Some n \<in> set xs \<Longrightarrow> \<not> less_number n (Math_min xs)" using M by simp
  show "Some (Math_min xs) \<in> set xs" if "xs \<noteq> []"
  proof (cases "Some (Math_min xs) \<in> set xs")
    case True
    then show ?thesis .
  next
    case False
    with M have eq: "Math_min xs = Infinity" by simp
    from that obtain x where x: "x \<in> set xs" by (cases xs) auto
    with assms obtain n where n: "x = Some n" "n \<noteq> NaN" by (auto simp: numeric_def)
    with low [of n] x eq have "n = Infinity" by (simp add: not_less_Infinity)
    with n x eq show ?thesis by simp
  qed
qed

lemma round_double_number: "round_double x \<noteq> NaN"
  by (simp add: round_double_def Let_def)

lemma divide_literal_NaN: "(divide_literal x c = NaN) = (x = NaN)"
  by (cases x) (simp_all add: divide_literal_def round_double_number)

lemma parseFloat_toFixed2_NaN: "(parseFloat (toFixed2 x) = NaN) = (x = NaN)"
  by (cases x) (simp_all add: parseFloat_def toFixed2_def round_double_number)

lemma toFixed2_nearest:
  assumes "\<bar>q\<bar> < 10 ^ 21"
  shows "\<exists>n. toFixed2 (Finite q) = Hundredths (q < 0) n \<and> \<bar>real n / 100 - \<bar>q\<bar>\<bar> \<le> 1 / 200"
proof -
  define n where "n = nat \<lfloor>\<bar>q\<bar> * 100 + 1 / 2\<rfloor>"
  have nonneg: "0 \<le> \<lfloor>\<bar>q\<bar> * 100 + 1 / 2\<rfloor>" by simp
  then have rn: "real n = of_int \<lfloor>\<bar>q\<bar> * 100 + 1 / 2\<rfloor>" by (simp add: n_def)
  have "real n \<le> \<bar>q\<bar> * 100 + 1 / 2" and "\<bar>q\<bar> * 100 + 1 / 2 < real n + 1"
    unfolding rn by linarith+
  then have "\<bar>real n / 100 - \<bar>q\<bar>\<bar> \<le> 1 / 200" by linarith
  moreover have "toFixed2 (Finite q) = Hundredths (q < 0) n"
    using assms by (simp add: toFixed2_def n_def)
  ultimately show ?thesis by blast
qed

section \<open>The loop and the records it builds\<close>

lemma length_outcomes: "length (outcomes env d zs sent) = length zs"
  by (induction zs arbitrary: sent) (simp_all add: getDistance_def Let_def)

lemma loop_eq:
  "loop env d zs (acc, sent) =
     (acc @ map2 entryOf zs (outcomes env d zs sent),
      sent @ map (\<lambda>z. url (trim z) (trim d)) zs)"
  by (induction zs arbitrary: acc sent) (simp_all add: getDistance_def Let_def)

lemma computeBatch_eq:
  "computeBatch env zs d sent =
     (map (withIsMin (Math_min (validDistances (entries env d zs sent)))) (entries env d zs sent),
      sent @ map (\<lambda>z. url (trim z) (trim d)) zs)"
  by (simp add: computeBatch_def loop_eq entries_def Let_def)

lemma handleSubmit_eq:
  "handleSubmit env s sent =
     (s\<lparr> formError := [], loading := False,
         results := map (withIsMin (Math_min (validDistances
                      (entries env (destZip s) (sourceZips s) sent))))
                    (entries env (destZip s) (sourceZips s) sent) \<rparr>,
      sent @ map (\<lambda>z. url (trim z) (trim (destZip s))) (sourceZips s))"
  by (simp add: handleSubmit_def computeBatch_eq Let_def)

lemma length_sourceZips: "length (sourceZips s) = 4"
  by (simp add: sourceZips_def)

lemma length_entries: "length (entries env d zs sent) = length zs"
  by (simp add: entries_def length_outcomes)

lemma nth_entries:
  "i < length zs \<Longrightarrow> entries env d zs sent ! i = entryOf (zs ! i) (outcomes env d zs sent ! i)"
  by (simp add: entries_def length_outcomes)

lemma results_handleSubmit:
  "results (fst (handleSubmit env s sent)) =
     map (withIsMin (Math_min (validDistances (entries env (destZip s) (sourceZips s) sent))))
       (entries env (destZip s) (sourceZips s) sent)"
  by (simp add: handleSubmit_eq)

lemma validDistances_success:
  "length zs = length rs \<Longrightarrow>
     validDistances (map2 entryOf zs (map Inr rs)) = map (\<lambda>r. Some (distanceKm r)) rs"
  by (induction zs rs rule: list_induct2) (simp_all add: validDistances_def entryOf_def noError_def)

lemma entries_cases:
  assumes "e \<in> set (entries env d zs sent)"
  shows "(\<exists>z x. e = \<lparr> source = z, result = Some x, error = None \<rparr>)
       \<or> (\<exists>z err. e = \<lparr> source = z, result = None, error = Some (message err) \<rparr>
             \<and> Inl err \<in> set (outcomes env d zs sent))"
proof -
  from assms obtain z out where zo: "(z, out) \<in> set (zip zs (outcomes env d zs sent))"
    and e: "e = entryOf z out"
    by (auto simp: entries_def)
  from zo have out: "out \<in> set (outcomes env d zs sent)" by (rule set_zip_rightD)
  show ?thesis
  proof (cases out)
    case (Inl err)
    with e out show ?thesis by (auto simp: entryOf_def)
  next
    case (Inr x)
    with e show ?thesis by (simp add: entryOf_def)
  qed
qed

lemma in_validDistances:
  "e \<in> set es \<Longrightarrow> noError (error e) \<Longrightarrow>
     map_option distanceKm (result e) \<in> set (validDistances es)"
  by (auto simp: validDistances_def)

lemma validDistances_cases:
  "v \<in> set (validDistances es) \<Longrightarrow>
     \<exists>e \<in> set es. noError (error e) \<and> v = map_option distanceKm (result e)"
  by (auto simp: validDistances_def)

lemma result_withIsMin [simp]: "result (withIsMin m e) = result e"
  by (simp add: withIsMin_def)

lemma error_withIsMin [simp]: "error (withIsMin m e) = error e"
  by (simp add: withIsMin_def)

lemma source_withIsMin [simp]: "source (withIsMin m e) = source e"
  by (simp add: withIsMin_def)

lemma isMin_withIsMin:
  "isMin (withIsMin m e) =
     (noError (error e) \<and> (\<exists>x. result e = Some x \<and> strict_equals (distanceKm x) m))"
  by (cases "result e") (simp_all add: withIsMin_def)

lemma withIsMin_failed:
  "length zs = length errs \<Longrightarrow>
     map (withIsMin m) (map2 entryOf zs (map Inl errs)) =
     map2 (\<lambda>z e. \<lparr> source = z, result = None, error = Some (message e), isMin = False \<rparr>)
       zs errs"
  by (induction zs errs rule: list_induct2) (simp_all add: withIsMin_def entryOf_def)

lemma source_entryOf [simp]: "source (entryOf z out) = z"
  by (cases out) (simp_all add: entryOf_def)

lemma map_source_map2:
  "length zs = length outs \<Longrightarrow> map source (map2 entryOf zs outs) = zs"
  by (induction zs outs rule: list_induct2) simp_all

lemma map_fields_map2:
  "length zs = length outs \<Longrightarrow>
     map (\<lambda>r. (result r, error r)) (map2 entryOf zs outs) =
     map (\<lambda>out. case out of Inl e \<Rightarrow> (None, Some (message e)) | Inr x \<Rightarrow> (Some x, None)) outs"
  by (induction zs outs rule: list_induct2) (simp_all add: entryOf_def split: sum.splits)

lemma nth_outcomes:
  "i < length zs \<Longrightarrow>
     outcomes env d zs sent ! i =
       fst (getDistance env (trim (zs ! i)) (trim d)
              (sent @ map (\<lambda>z. url (trim z) (trim d)) (take i zs)))"
proof (induction zs arbitrary: i sent)
  case Nil
  then show ?case by simp
next
  case (Cons z zs)
  show ?case
  proof (cases i)
    case 0
    then show ?thesis by (simp add: getDistance_def Let_def)
  next
    case (Suc k)
    with Cons.prems have k: "k < length zs" by simp
    show ?thesis
      using Cons.IH [OF k, of "sent @ [url (trim z) (trim d)]"] Suc
      by (simp add: getDistance_def Let_def)
  qed
qed

lemma entryOf_message:
  "entryOf z out =
     (case map_sum message id out of
        Inl m \<Rightarrow> \<lparr> source = z, result = None, error = Some m \<rparr>
      | Inr x \<Rightarrow> \<lparr> source = z, result = Some x, error = None \<rparr>)"
  by (cases out) (simp_all add: entryOf_def)

lemma map2_entryOf_message:
  "map2 entryOf zs outs =
     map2 (\<lambda>z p. case p of
             Inl m \<Rightarrow> \<lparr> source = z, result = None, error = Some m \<rparr>
           | Inr x \<Rightarrow> \<lparr> source = z, result = Some x, error = None \<rparr>)
       zs (map (map_sum message id) outs)"
  by (simp add: zip_map2 entryOf_message comp_def case_prod_beta)

text \<open>The adapter's own error never has an empty message.\<close>

lemma route_message_not_empty:
  "message (Thrown Error (''No route found from '' @ a @ '' to '' @ b)) \<noteq> []"
  by simp

section \<open>Evaluation of the adapter on the example routes\<close>

lemmas round_eval = ilog2_def bitlength.simps pow2_def round_half_even_def

lemma literal_0621371:
  "round_double (621371 / 1000000) = Finite (5596812408117665 / 9007199254740992)"
  unfolding round_double_def Let_def by (simp add: round_eval)

lemma getDistance_data_upstreamOK:
  "getDistance_data env a b (upstreamOK m t) =
     Inr \<lparr> distanceKm = parseFloat (toFixed2 (divide_literal m 1000)),
           distanceMiles =
             parseFloat (toFixed2 (times_literal (divide_literal m 1000) (621371 / 1000000))),
           durationMins = parseFloat (toFixed2 (divide_literal t 60)) \<rparr>"
  by (simp add: getDistance_data_def noRoute_def firstElement_def andThen_def upstreamOK_def
      Let_def)

lemma km_12345:
  "divide_literal (Finite 12345) 1000 = Finite (6949617174986097 / 562949953421312)"
  unfolding divide_literal_def number.case round_double_def Let_def by (simp add: round_eval)

lemma miles_12345:
  "times_literal (Finite (6949617174986097 / 562949953421312)) (621371 / 1000000) = Finite (2159145286819143 / 281474976710656)"
  unfolding times_literal_def number.case literal_0621371 round_double_def Let_def
  by (simp add: round_eval)

lemma mins_678:
  "divide_literal (Finite 678) 60 = Finite (3180667236830413 / 281474976710656)"
  unfolding divide_literal_def number.case round_double_def Let_def by (simp add: round_eval)

lemma fixed_km_12345:
  "parseFloat (toFixed2 (Finite (6949617174986097 / 562949953421312))) = Finite (6952431924753203 / 562949953421312)"
  unfolding toFixed2_def parseFloat_def number.case round_double_def Let_def
  by (simp add: round_eval)

lemma fixed_miles_12345:
  "parseFloat (toFixed2 (Finite (2159145286819143 / 281474976710656))) = Finite (4317826142741463 / 562949953421312)"
  unfolding toFixed2_def parseFloat_def number.case round_double_def Let_def
  by (simp add: round_eval)

lemma fixed_mins_678:
  "parseFloat (toFixed2 (Finite (3180667236830413 / 281474976710656))) = Finite (3180667236830413 / 281474976710656)"
  unfolding toFixed2_def parseFloat_def number.case round_double_def Let_def
  by (simp add: round_eval)

lemma getDistance_data_12345:
  "getDistance_data env a b (upstreamOK (Finite 12345) (Finite 678)) = Inr result12345"
  by (simp add: getDistance_data_upstreamOK km_12345 miles_12345 mins_678
      fixed_km_12345 fixed_miles_12345 fixed_mins_678 result12345_def)

lemma km_5000:
  "divide_literal (Finite 5000) 1000 = Finite 5"
  unfolding divide_literal_def number.case round_double_def Let_def by (simp add: round_eval)

lemma miles_5000:
  "times_literal (Finite 5) (621371 / 1000000) = Finite (6996015510147081 / 2251799813685248)"
  unfolding times_literal_def number.case literal_0621371 round_double_def Let_def
  by (simp add: round_eval)

lemma mins_300:
  "divide_literal (Finite 300) 60 = Finite 5"
  unfolding divide_literal_def number.case round_double_def Let_def by (simp add: round_eval)

lemma fixed_km_5000:
  "parseFloat (toFixed2 (Finite 5)) = Finite 5"
  unfolding toFixed2_def parseFloat_def number.case round_double_def Let_def
  by (simp add: round_eval)

lemma fixed_miles_5000:
  "parseFloat (toFixed2 (Finite (6996015510147081 / 2251799813685248))) = Finite (7003097420561121 / 2251799813685248)"
  unfolding toFixed2_def parseFloat_def number.case round_double_def Let_def
  by (simp add: round_eval)

lemma fixed_mins_300:
  "parseFloat (toFixed2 (Finite 5)) = Finite 5"
  unfolding toFixed2_def parseFloat_def number.case round_double_def Let_def
  by (simp add: round_eval)

lemma getDistance_data_5000:
  "getDistance_data env a b (upstreamOK (Finite 5000) (Finite 300)) = Inr result5000"
  by (simp add: getDistance_data_upstreamOK km_5000 miles_5000 mins_300
      fixed_km_5000 fixed_miles_5000 fixed_mins_300 result5000_def)

lemma km_7500:
  "divide_literal (Finite 7500) 1000 = Finite (15 / 2)"
  unfolding divide_literal_def number.case round_double_def Let_def by (simp add: round_eval)

lemma miles_7500:
  "times_literal (Finite (15 / 2)) (621371 / 1000000) = Finite (5247011632610311 / 1125899906842624)"
  unfolding times_literal_def number.case literal_0621371 round_double_def Let_def
  by (simp add: round_eval)

lemma mins_450:
  "divide_literal (Finite 450) 60 = Finite (15 / 2)"
  unfolding divide_literal_def number.case round_double_def Let_def by (simp add: round_eval)

lemma fixed_km_7500:
  "parseFloat (toFixed2 (Finite (15 / 2))) = Finite (15 / 2)"
  unfolding toFixed2_def parseFloat_def number.case round_double_def Let_def
  by (simp add: round_eval)

lemma fixed_miles_7500:
  "parseFloat (toFixed2 (Finite (5247011632610311 / 1125899906842624))) = Finite (1311673391471657 / 281474976710656)"
  unfolding toFixed2_def parseFloat_def number.case round_double_def Let_def
  by (simp add: round_eval)

lemma fixed_mins_450:
  "parseFloat (toFixed2 (Finite (15 / 2))) = Finite (15 / 2)"
  unfolding toFixed2_def parseFloat_def number.case round_double_def Let_def
  by (simp add: round_eval)

lemma getDistance_data_7500:
  "getDistance_data env a b (upstreamOK (Finite 7500) (Finite 450)) = Inr result7500"
  by (simp add: getDistance_data_upstreamOK km_7500 miles_7500 mins_450
      fixed_km_7500 fixed_miles_7500 fixed_mins_450 result7500_def)

lemma km_20000:
  "divide_literal (Finite 20000) 1000 = Finite 20"
  unfolding divide_literal_def number.case round_double_def Let_def by (simp add: round_eval)

lemma miles_20000:
  "times_literal (Finite 20) (621371 / 1000000) = Finite (6996015510147081 / 562949953421312)"
  unfolding times_literal_def number.case literal_0621371 round_double_def Let_def
  by (simp add: round_eval)

lemma mins_1200:
  "divide_literal (Finite 1200) 60 = Finite 20"
  unfolding divide_literal_def number.case round_double_def Let_def by (simp add: round_eval)

lemma fixed_km_20000:
  "parseFloat (toFixed2 (Finite 20)) = Finite 20"
  unfolding toFixed2_def parseFloat_def number.case round_double_def Let_def
  by (simp add: round_eval)

lemma fixed_miles_20000:
  "parseFloat (toFixed2 (Finite (6996015510147081 / 562949953421312))) = Finite (1749366980256727 / 140737488355328)"
  unfolding toFixed2_def parseFloat_def number.case round_double_def Let_def
  by (simp add: round_eval)

lemma fixed_mins_1200:
  "parseFloat (toFixed2 (Finite 20)) = Finite 20"
  unfolding toFixed2_def parseFloat_def number.case round_double_def Let_def
  by (simp add: round_eval)

lemma getDistance_data_20000:
  "getDistance_data env a b (upstreamOK (Finite 20000) (Finite 1200)) = Inr result20000"
  by (simp add: getDistance_data_upstreamOK km_20000 miles_20000 mins_1200
      fixed_km_20000 fixed_miles_20000 fixed_mins_1200 result20000_def)

lemma km_4999:
  "divide_literal (Finite 4999) 1000 = Finite (5628373634306277 / 1125899906842624)"
  unfolding divide_literal_def number.case round_double_def Let_def by (simp add: round_eval)

lemma miles_4999:
  "times_literal (Finite (5628373634306277 / 1125899906842624)) (621371 / 1000000) = Finite (6994616307045051 / 2251799813685248)"
  unfolding times_literal_def number.case literal_0621371 round_double_def Let_def
  by (simp add: round_eval)

lemma mins_299:
  "divide_literal (Finite 299) 60 = Finite (5610734535765743 / 1125899906842624)"
  unfolding divide_literal_def number.case round_double_def Let_def by (simp add: round_eval)

lemma fixed_km_4999:
  "parseFloat (toFixed2 (Finite (5628373634306277 / 1125899906842624))) = Finite 5"
  unfolding toFixed2_def parseFloat_def number.case round_double_def Let_def
  by (simp add: round_eval)

lemma fixed_miles_4999:
  "parseFloat (toFixed2 (Finite (6994616307045051 / 2251799813685248))) = Finite (7003097420561121 / 2251799813685248)"
  unfolding toFixed2_def parseFloat_def number.case round_double_def Let_def
  by (simp add: round_eval)

lemma fixed_mins_299:
  "parseFloat (toFixed2 (Finite (5610734535765743 / 1125899906842624))) = Finite (1401745384019067 / 281474976710656)"
  unfolding toFixed2_def parseFloat_def number.case round_double_def Let_def
  by (simp add: round_eval)

lemma getDistance_data_4999:
  "getDistance_data env a b (upstreamOK (Finite 4999) (Finite 299)) = Inr result4999"
  by (simp add: getDistance_data_upstreamOK km_4999 miles_4999 mins_299
      fixed_km_4999 fixed_miles_4999 fixed_mins_299 result4999_def)

lemma value_1235: "round_double (1235 / 100) = Finite (6952431924753203 / 562949953421312)"
  unfolding round_double_def Let_def by (simp add: round_eval)

lemma value_767: "round_double (767 / 100) = Finite (4317826142741463 / 562949953421312)"
  unfolding round_double_def Let_def by (simp add: round_eval)

lemma value_1130: "round_double (1130 / 100) = Finite (3180667236830413 / 281474976710656)"
  unfolding round_double_def Let_def by (simp add: round_eval)

lemma getDistance_data_distanceKm_number:
  "getDistance_data env a b (upstreamOK meters seconds) = Inr r \<Longrightarrow>
     (distanceKm r = NaN) = (meters = NaN)"
  by (auto simp: getDistance_data_upstreamOK parseFloat_toFixed2_NaN divide_literal_NaN)

lemma getDistance_data_zeroResults:
  "getDistance_data env a b zeroResults = Inl (Thrown Error (''No route found from '' @ a @ '' to '' @ b))"
  by (simp add: getDistance_data_def noRoute_def firstElement_def andThen_def zeroResults_def)

lemma getDistance_data_status:
  "getDistance_data env a b (Object ((''status'', String ''INVALID_REQUEST'') # kvs)) =
     Inl (Thrown Error (''No route found from '' @ a @ '' to '' @ b))"
  by (simp add: getDistance_data_def noRoute_def andThen_def)

lemma trim_samples:
  "trim ''95131'' = ''95131''" "trim '' 32220'' = ''32220''" "trim ''07305 '' = ''07305''"
  "trim ''75050'' = ''75050''" "trim ''60601 '' = ''60601''"
  by (simp_all add: trim_def whiteSpace_def stripLeading.simps)

text \<open>
  A no-break space before the code, and a line separator and a tab after it, are removed
  as well.
\<close>

lemma trim_no_break_space:
  "trim (CHR 0xC2 # CHR 0xA0 # ''95131'' @ [CHR 0xE2, CHR 0x80, CHR 0xA8, CHR 0x09]) = ''95131''"
  by (simp add: trim_def whiteSpace_def stripLeading.simps)

lemma outcomes_fourRoutes:
  "outcomes (sampleBrowser fourRoutes) (destZip formState) (sourceZips formState) [] =
     map Inr [result12345, result5000, result7500, result20000]"
  by (simp add: sourceZips_def formState_def getDistance_def trim_samples sampleBrowser_def
      fourRoutes_def url_def getDistance_data_12345 getDistance_data_5000
      getDistance_data_7500 getDistance_data_20000)

lemma outcomes_noRoutes:
  "outcomes (sampleBrowser noRoutes) (destZip formState) (sourceZips formState) [] =
     map Inl fourErrors"
  by (simp add: sourceZips_def formState_def getDistance_def trim_samples sampleBrowser_def
      noRoutes_def url_def fourErrors_def getDistance_data_zeroResults getDistance_data_status)

lemma outcomes_tiedRoutes:
  "outcomes (sampleBrowser tiedRoutes) (destZip formState) (sourceZips formState) [] =
     tiedOutcomes"
  by (simp add: sourceZips_def formState_def getDistance_def trim_samples sampleBrowser_def
      tiedRoutes_def url_def tiedOutcomes_def getDistance_data_zeroResults
      getDistance_data_5000 getDistance_data_4999 getDistance_data_20000)

lemma outcomes_tiedRoutes_sent:
  "outcomes (sampleBrowser tiedRoutes) ''60601 '' [''95131'', '' 32220'', ''07305 '', ''75050'']
     sent = tiedOutcomes"
  by (simp add: getDistance_def trim_samples sampleBrowser_def
      tiedRoutes_def url_def tiedOutcomes_def getDistance_data_zeroResults
      getDistance_data_5000 getDistance_data_4999 getDistance_data_20000)

lemma results_tiedRoutes:
  "results (fst (handleSubmit (sampleBrowser tiedRoutes) formState [])) = tiedResults"
  unfolding results_handleSubmit entries_def outcomes_tiedRoutes
  by (simp add: tiedOutcomes_def sourceZips_def formState_def entryOf_def validDistances_def
      noError_def Math_min_def withIsMin_def strict_equals_def tiedResults_def result5000_def
      result4999_def result20000_def)

lemma getDistance_data_unmeasured:
  "getDistance_data env a b unmeasured = Inr resultNaN"
  by (simp add: getDistance_data_def noRoute_def firstElement_def andThen_def unmeasured_def
      Let_def divide_literal_def times_literal_def toFixed2_def parseFloat_def resultNaN_def)

lemma outcomes_unmeasuredRoutes:
  "outcomes (sampleBrowser unmeasuredRoutes) (destZip formState) (sourceZips formState) [] =
     map Inr [resultNaN, result5000, result7500, result20000]"
  by (simp add: sourceZips_def formState_def getDistance_def trim_samples sampleBrowser_def
      unmeasuredRoutes_def url_def getDistance_data_unmeasured getDistance_data_5000
      getDistance_data_7500 getDistance_data_20000)

lemma outcomes_silentFailure:
  "outcomes (sampleBrowser silentFailure) (destZip formState) (sourceZips formState) [] =
     [Inr result5000, Inr result4999, Inl (Thrown TypeError []), Inr result20000]"
  by (simp add: sourceZips_def formState_def getDistance_def trim_samples sampleBrowser_def
      silentFailure_def url_def getDistance_data_5000 getDistance_data_4999
      getDistance_data_20000)

section \<open>The adapter\<close>

text \<open>
  C4. When both status checks pass and the first element carries the numbers \<open>meters\<close> and
  \<open>seconds\<close> as distance and duration, the adapter returns \<open>meters / 1000\<close>, that unrounded
  quotient times \<open>0.621371\<close>, and \<open>seconds / 60\<close>, each passed on its own through
  \<^verbatim>\<open>toFixed(2)\<close> and \<^verbatim>\<open>parseFloat\<close>. Below \<open>10\<^sup>2\<^sup>1\<close> in magnitude that is the rounding to
  two decimals: \<^verbatim>\<open>toFixed(2)\<close> prints the sign and an integer \<open>n\<close> of hundredths at most half
  a hundredth away from the magnitude, and \<^verbatim>\<open>parseFloat\<close> reads it back as the nearest
  number. For 12345 meters and 678 seconds the result is 12.35, 7.67 and 11.30.
\<close>

theorem getDistance_data_rounded:
  "(noRoute env data = Inr False \<and> firstElement env data = Inr element
      \<and> Get env element ''distance'' = Inr distance
      \<and> Get env distance ''value'' = Inr (Number meters)
      \<and> Get env element ''duration'' = Inr duration
      \<and> Get env duration ''value'' = Inr (Number seconds)
    \<longrightarrow> getDistance_data env a b data =
          Inr \<lparr> distanceKm = parseFloat (toFixed2 (divide_literal meters 1000)),
                distanceMiles = parseFloat (toFixed2
                  (times_literal (divide_literal meters 1000) (621371 / 1000000))),
                durationMins = parseFloat (toFixed2 (divide_literal seconds 60)) \<rparr>)
   \<and> (\<bar>q\<bar> < 10 ^ 21 \<longrightarrow>
        (\<exists>n. toFixed2 (Finite q) = Hundredths (q < 0) n
           \<and> \<bar>real n / 100 - \<bar>q\<bar>\<bar> \<le> 1 / 200
           \<and> parseFloat (toFixed2 (Finite q)) =
               round_double ((if q < 0 then - 1 else 1) * (real n / 100))))
   \<and> getDistance_data env a b (upstreamOK (Finite 12345) (Finite 678)) =
       Inr \<lparr> distanceKm = round_double (1235 / 100),
             distanceMiles = round_double (767 / 100),
             durationMins = round_double (1130 / 100) \<rparr>"
proof (intro conjI impI)
  assume "noRoute env data = Inr False \<and> firstElement env data = Inr element
      \<and> Get env element ''distance'' = Inr distance
      \<and> Get env distance ''value'' = Inr (Number meters)
      \<and> Get env element ''duration'' = Inr duration
      \<and> Get env duration ''value'' = Inr (Number seconds)"
  then show "getDistance_data env a b data =
          Inr \<lparr> distanceKm = parseFloat (toFixed2 (divide_literal meters 1000)),
                distanceMiles = parseFloat (toFixed2
                  (times_literal (divide_literal meters 1000) (621371 / 1000000))),
                durationMins = parseFloat (toFixed2 (divide_literal seconds 60)) \<rparr>"
    by (simp add: getDistance_data_def andThen_def Let_def)
next
  assume "\<bar>q\<bar> < 10 ^ 21"
  from toFixed2_nearest [OF this] obtain n
    where n: "toFixed2 (Finite q) = Hundredths (q < 0) n" "\<bar>real n / 100 - \<bar>q\<bar>\<bar> \<le> 1 / 200"
    by blast
  then have "parseFloat (toFixed2 (Finite q)) =
      round_double ((if q < 0 then - 1 else 1) * (real n / 100))"
    by (simp add: parseFloat_def)
  with n show "\<exists>n. toFixed2 (Finite q) = Hundredths (q < 0) n
           \<and> \<bar>real n / 100 - \<bar>q\<bar>\<bar> \<le> 1 / 200
           \<and> parseFloat (toFixed2 (Finite q)) =
               round_double ((if q < 0 then - 1 else 1) * (real n / 100))"
    by blast
next
  show "getDistance_data env a b (upstreamOK (Finite 12345) (Finite 678)) =
       Inr \<lparr> distanceKm = round_double (1235 / 100),
             distanceMiles = round_double (767 / 100),
             durationMins = round_double (1130 / 100) \<rparr>"
    unfolding value_1235 value_767 value_1130
    by (simp add: getDistance_data_12345 result12345_def)
qed

text \<open>The same at the route of 5000 m in 300 s: 5 km, 3.11 miles, 5 minutes.\<close>

theorem getDistance_data_rounded_witness:
  "noRoute (sampleBrowser fourRoutes) (upstreamOK (Finite 5000) (Finite 300)) = Inr False
   \<and> getDistance_data (sampleBrowser fourRoutes) ''32220'' ''60601''
        (upstreamOK (Finite 5000) (Finite 300)) =
       Inr \<lparr> distanceKm = Finite 5,
             distanceMiles = Finite (7003097420561121 / 2251799813685248),
             durationMins = Finite 5 \<rparr>
   \<and> toFixed2 (Finite (6996015510147081 / 2251799813685248)) = Hundredths False 311"
proof -
  let ?env = "sampleBrowser fourRoutes"
  let ?data = "upstreamOK (Finite 5000) (Finite 300)"
  let ?element = "Object [(''status'', String ''OK''),
                 (''distance'', Object [(''value'', Number (Finite 5000))]),
                 (''duration'', Object [(''value'', Number (Finite 300))])]"
  have h: "noRoute ?env ?data = Inr False \<and> firstElement ?env ?data = Inr ?element
      \<and> Get ?env ?element ''distance'' = Inr (Object [(''value'', Number (Finite 5000))])
      \<and> Get ?env (Object [(''value'', Number (Finite 5000))]) ''value''
          = Inr (Number (Finite 5000))
      \<and> Get ?env ?element ''duration'' = Inr (Object [(''value'', Number (Finite 300))])
      \<and> Get ?env (Object [(''value'', Number (Finite 300))]) ''value''
          = Inr (Number (Finite 300))"
    by (simp add: noRoute_def firstElement_def andThen_def upstreamOK_def)
  have q: "\<bar>6996015510147081 / 2251799813685248 :: real\<bar> < 10 ^ 21" by simp
  note t = getDistance_data_rounded [where env = ?env and data = ?data and element = ?element
      and distance = "Object [(''value'', Number (Finite 5000))]" and meters = "Finite 5000"
      and duration = "Object [(''value'', Number (Finite 300))]" and seconds = "Finite 300"
      and a = "''32220''" and b = "''60601''"
      and q = "6996015510147081 / 2251799813685248"]
  from t h have "getDistance_data ?env ''32220'' ''60601'' ?data =
          Inr \<lparr> distanceKm = parseFloat (toFixed2 (divide_literal (Finite 5000) 1000)),
                distanceMiles = parseFloat (toFixed2
                  (times_literal (divide_literal (Finite 5000) 1000) (621371 / 1000000))),
                durationMins = parseFloat (toFixed2 (divide_literal (Finite 300) 60)) \<rparr>"
    by blast
  then have r: "getDistance_data ?env ''32220'' ''60601'' ?data =
       Inr \<lparr> distanceKm = Finite 5,
             distanceMiles = Finite (7003097420561121 / 2251799813685248),
             durationMins = Finite 5 \<rparr>"
    by (simp add: km_5000 miles_5000 mins_300 fixed_km_5000 fixed_miles_5000 fixed_mins_300)
  have f: "toFixed2 (Finite (6996015510147081 / 2251799813685248)) = Hundredths False 311"
    by (simp add: toFixed2_def)
  from h r f show ?thesis by simp
qed

text \<open>
  C5, as amended. On a parsed response whose reads do not throw (it is not \<^verbatim>\<open>null\<close>; when
  its status is \<^verbatim>\<open>"OK"\<close> the first element of the first row exists; when that element's
  status is \<^verbatim>\<open>"OK"\<close> too it carries a distance and a duration whose values convert to
  numbers) the adapter fails with exactly the message
  \<^verbatim>\<open>No route found from {source} to {destination}\<close> if and only if the top-level status or
  the element's status is not \<^verbatim>\<open>"OK"\<close>, and returns a result if and only if both are.
\<close>

theorem getDistance_data_no_route:
  assumes st: "Get env data ''status'' = Inr status"
    and el: "status = String ''OK'' \<Longrightarrow>
               firstElement env data = Inr element \<and> Get env element ''status'' = Inr status'"
    and ms: "status = String ''OK'' \<Longrightarrow> status' = String ''OK'' \<Longrightarrow>
               \<exists>distance meters m duration seconds t.
                 Get env element ''distance'' = Inr distance
                 \<and> Get env distance ''value'' = Inr meters \<and> ToNumber env meters = Inr m
                 \<and> Get env element ''duration'' = Inr duration
                 \<and> Get env duration ''value'' = Inr seconds \<and> ToNumber env seconds = Inr t"
  shows "(getDistance_data env a b data =
            Inl (Thrown Error (''No route found from '' @ a @ '' to '' @ b)))
           = (status \<noteq> String ''OK'' \<or> status' \<noteq> String ''OK'')
       \<and> (\<exists>r. getDistance_data env a b data = Inr r)
           = (status = String ''OK'' \<and> status' = String ''OK'')"
proof (cases "status = String ''OK''")
  case False
  with st have "getDistance_data env a b data =
      Inl (Thrown Error (''No route found from '' @ a @ '' to '' @ b))"
    by (simp add: getDistance_data_def noRoute_def andThen_def)
  with False show ?thesis by simp
next
  case True
  note e = el [OF True]
  show ?thesis
  proof (cases "status' = String ''OK''")
    case False
    with st True e have "getDistance_data env a b data =
        Inl (Thrown Error (''No route found from '' @ a @ '' to '' @ b))"
      by (simp add: getDistance_data_def noRoute_def andThen_def)
    with False show ?thesis by simp
  next
    case ok: True
    from ms [OF True ok] obtain distance meters m duration seconds t where
      "Get env element ''distance'' = Inr distance"
      "Get env distance ''value'' = Inr meters" "ToNumber env meters = Inr m"
      "Get env element ''duration'' = Inr duration"
      "Get env duration ''value'' = Inr seconds" "ToNumber env seconds = Inr t"
      by blast
    with st True e ok have "\<exists>r. getDistance_data env a b data = Inr r"
      by (simp add: getDistance_data_def noRoute_def andThen_def Let_def)
    with True ok show ?thesis by auto
  qed
qed

text \<open>An element whose status is \<^verbatim>\<open>"ZERO_RESULTS"\<close> under a top-level status \<^verbatim>\<open>"OK"\<close>.\<close>

theorem getDistance_data_no_route_witness:
  "Get (sampleBrowser noRoutes) zeroResults ''status'' = Inr (String ''OK'')
   \<and> Get (sampleBrowser noRoutes) (Object [(''status'', String ''ZERO_RESULTS'')]) ''status''
       = Inr (String ''ZERO_RESULTS'')
   \<and> getDistance_data (sampleBrowser noRoutes) ''75050'' ''60601'' zeroResults =
       Inl (Thrown Error ''No route found from 75050 to 60601'')
   \<and> \<not> (\<exists>r. getDistance_data (sampleBrowser noRoutes) ''75050'' ''60601'' zeroResults = Inr r)"
proof -
  let ?env = "sampleBrowser noRoutes"
  let ?el = "Object [(''status'', String ''ZERO_RESULTS'')]"
  have st: "Get ?env zeroResults ''status'' = Inr (String ''OK'')"
    by (simp add: zeroResults_def)
  have el: "firstElement ?env zeroResults = Inr ?el \<and> Get ?env ?el ''status'' = Inr (String ''ZERO_RESULTS'')"
    by (simp add: zeroResults_def firstElement_def andThen_def)
  have no: "String ''ZERO_RESULTS'' \<noteq> String ''OK''" by simp
  show ?thesis
    using getDistance_data_no_route [of ?env zeroResults "String ''OK''" ?el
        "String ''ZERO_RESULTS''" "''75050''" "''60601''"] st el no
    by simp
qed

text \<open>
  C5 as it was stated does not hold for every parsed response: on
  \<^verbatim>\<open>{"status":"OK","rows":[]}\<close> the read of \<^verbatim>\<open>elements\<close> on \<^verbatim>\<open>undefined\<close> throws a
  \<^verbatim>\<open>TypeError\<close>, which is neither the failure with the route message nor a result.
\<close>

theorem getDistance_data_missing_rows:
  "getDistance_data (sampleBrowser []) ''A'' ''B''
     (Object [(''status'', String ''OK''), (''rows'', Array [])]) =
     Inl (Thrown TypeError ''Cannot read properties of undefined (reading 'elements')'')
   \<and> getDistance_data (sampleBrowser []) ''A'' ''B''
        (Object [(''status'', String ''OK''), (''rows'', Array [])]) \<noteq>
       Inl (Thrown Error ''No route found from A to B'')"
  by (simp add: getDistance_data_def noRoute_def firstElement_def andThen_def sampleBrowser_def)

text \<open>
  C6, as amended. When the network fails or the body is not JSON, the adapter fails with
  the very error \<^verbatim>\<open>fetch\<close> or \<^verbatim>\<open>json\<close> rejected with, its class and its message passed
  through unchanged, and that failure is not the failure with the route message. The HTTP
  status takes no part: a response with any status is handled by its body alone, as one
  with another status and the same body is.
\<close>

theorem getDistance_passes_errors:
  "(network env sent (url a b) = NetworkError r
      \<or> network env sent (url a b) = Response code (Malformed r)
    \<longrightarrow> fst (getDistance env a b sent) = Inl (rejected r)
        \<and> fst (getDistance env a b sent) \<noteq>
             Inl (Thrown Error (''No route found from '' @ a @ '' to '' @ b)))
   \<and> getDistance_response env a b (Response code bdy) =
       getDistance_response env a b (Response code' bdy)"
proof -
  have status: "getDistance_response env a b (Response code bdy) =
        getDistance_response env a b (Response code' bdy)"
    by (cases bdy) simp_all
  have distinct: "rejected r \<noteq> Thrown Error (''No route found from '' @ a @ '' to '' @ b)"
    by (cases r) simp_all
  from status distinct show ?thesis by (auto simp: getDistance_def Let_def)
qed

text \<open>A request the network cannot connect, and a 502 response whose body is not JSON.\<close>

theorem getDistance_passes_errors_witness:
  "network (sampleBrowser noRoutes) [] (url ''95131'' ''60601'')
     = NetworkError (RejectTypeError ''Failed to fetch'')
   \<and> fst (getDistance (sampleBrowser noRoutes) ''95131'' ''60601'' [])
       = Inl (Thrown TypeError ''Failed to fetch'')
   \<and> fst (getDistance (sampleBrowser noRoutes) ''95131'' ''60601'' []) \<noteq>
       Inl (Thrown Error ''No route found from 95131 to 60601'')
   \<and> network (sampleBrowser noRoutes) [] (url ''32220'' ''60601'')
       = Response 502 (Malformed (RejectSyntaxError ''Unexpected end of JSON input''))
   \<and> fst (getDistance (sampleBrowser noRoutes) ''32220'' ''60601'' [])
       = Inl (Thrown SyntaxError ''Unexpected end of JSON input'')
   \<and> fst (getDistance (sampleBrowser noRoutes) ''32220'' ''60601'' []) \<noteq>
       Inl (Thrown Error ''No route found from 32220 to 60601'')"
proof -
  have n: "network (sampleBrowser noRoutes) [] (url ''95131'' ''60601'')
     = NetworkError (RejectTypeError ''Failed to fetch'')"
    by (simp add: sampleBrowser_def noRoutes_def url_def)
  have p: "network (sampleBrowser noRoutes) [] (url ''32220'' ''60601'')
       = Response 502 (Malformed (RejectSyntaxError ''Unexpected end of JSON input''))"
    by (simp add: sampleBrowser_def noRoutes_def url_def)
  have first: "fst (getDistance (sampleBrowser noRoutes) ''95131'' ''60601'' [])
       = Inl (Thrown TypeError ''Failed to fetch'')
     \<and> fst (getDistance (sampleBrowser noRoutes) ''95131'' ''60601'' []) \<noteq>
       Inl (Thrown Error ''No route found from 95131 to 60601'')"
    using getDistance_passes_errors [where env = "sampleBrowser noRoutes" and sent = "[]"
        and a = "''95131''" and b = "''60601''"
        and r = "RejectTypeError ''Failed to fetch''"] n
    by simp
  have second: "fst (getDistance (sampleBrowser noRoutes) ''32220'' ''60601'' [])
       = Inl (Thrown SyntaxError ''Unexpected end of JSON input'')
     \<and> fst (getDistance (sampleBrowser noRoutes) ''32220'' ''60601'' []) \<noteq>
       Inl (Thrown Error ''No route found from 32220 to 60601'')"
    using getDistance_passes_errors [where env = "sampleBrowser noRoutes" and sent = "[]"
        and a = "''32220''" and b = "''60601''" and code = 502
        and r = "RejectSyntaxError ''Unexpected end of JSON input''"] p
    by simp
  from n p first second show ?thesis by simp
qed

text \<open>
  C6 as it was stated does not hold for a status that is not OK: a 404 response whose body
  is the JSON \<^verbatim>\<open>{"error":"Not Found"}\<close> makes the adapter fail with the route message.
\<close>

theorem getDistance_response_error_status:
  "getDistance_response (sampleBrowser []) ''A'' ''B''
     (Response 404 (Json (Object [(''error'', String ''Not Found'')]))) =
     Inl (Thrown Error ''No route found from A to B'')"
  by (simp add: getDistance_data_def noRoute_def andThen_def)

section \<open>The handler\<close>

text \<open>
  C1, as amended. When all four adapter calls succeed and their \<open>distanceKm\<close> values
  differ pairwise and none of them is not-a-number, the handler leaves four records, each
  carrying the result of its own call, and exactly one of them has \<open>isMin\<close>: position \<open>i\<close>
  is flagged and no other, and its \<open>distanceKm\<close> is less than that of every other record.
\<close>

theorem handleSubmit_unique_minimum:
  assumes ok: "outcomes env (destZip s) (sourceZips s) sent = map Inr rs"
    and nan: "NaN \<notin> set (map distanceKm rs)"
    and dist: "distinct (map distanceKm rs)"
  shows "length (results (fst (handleSubmit env s sent))) = 4
    \<and> (\<exists>i<4. \<forall>j<4.
          result (results (fst (handleSubmit env s sent)) ! j) = Some (rs ! j)
          \<and> isMin (results (fst (handleSubmit env s sent)) ! j) = (j = i)
          \<and> (j \<noteq> i \<longrightarrow> less_number (distanceKm (rs ! i)) (distanceKm (rs ! j))))"
proof -
  define zs where "zs = sourceZips s"
  define es where "es = entries env (destZip s) zs sent"
  define ds where "ds = map distanceKm rs"
  define m where "m = Math_min (validDistances es)"
  have len: "length rs = 4"
    using length_outcomes [of env "destZip s" "sourceZips s" sent] ok
    by (simp add: length_sourceZips)
  have lzs: "length zs = length rs" by (simp add: zs_def len length_sourceZips)
  have es: "es = map2 entryOf zs (map Inr rs)"
    by (simp add: es_def entries_def zs_def ok)
  have vd: "validDistances es = map Some ds"
    using validDistances_success [OF lzs] by (simp add: es ds_def)
  have nn: "\<And>k. k < 4 \<Longrightarrow> distanceKm (rs ! k) \<noteq> NaN"
  proof
    fix k :: nat
    assume "k < 4" and "distanceKm (rs ! k) = NaN"
    with len have "NaN \<in> set (map distanceKm rs)"
      by (metis length_map nth_map nth_mem)
    with nan show False by simp
  qed
  have num: "numeric (map Some ds)"
    using nan by (force simp: numeric_def ds_def)
  have ne: "map Some ds \<noteq> []" using len by (auto simp: ds_def)
  have m_in: "m \<in> set ds"
    using Math_min_numeric(3) [OF num ne] by (auto simp: m_def vd)
  then obtain i where i: "i < 4" and mi: "ds ! i = m"
    using len by (auto simp: in_set_conv_nth ds_def)
  have res: "results (fst (handleSubmit env s sent)) = map (withIsMin m) es"
    by (simp add: results_handleSubmit m_def es_def zs_def)
  have "\<forall>j<4. result (map (withIsMin m) es ! j) = Some (rs ! j)
          \<and> isMin (map (withIsMin m) es ! j) = (j = i)
          \<and> (j \<noteq> i \<longrightarrow> less_number (distanceKm (rs ! i)) (distanceKm (rs ! j)))"
  proof (intro allI impI)
    fix j :: nat
    assume j: "j < 4"
    have ej: "es ! j = \<lparr> source = zs ! j, result = Some (rs ! j), error = None \<rparr>"
      using j len lzs by (simp add: es entryOf_def)
    have dj: "ds ! j = distanceKm (rs ! j)" using j len by (simp add: ds_def)
    have di: "ds ! i = distanceKm (rs ! i)" using i len by (simp add: ds_def)
    have nj: "ds ! j \<noteq> NaN" using nn [OF j] dj by simp
    have ni: "ds ! i \<noteq> NaN" using nn [OF i] di by simp
    have eq: "(ds ! j = ds ! i) = (j = i)"
      using dist i j len nth_eq_iff_index_eq [of ds j i] by (simp add: ds_def)
    have low: "\<not> less_number (ds ! j) m"
      using Math_min_numeric(2) [OF num, of "ds ! j"] j len by (simp add: m_def vd ds_def)
    have mn: "m \<noteq> NaN" using ni mi by simp
    have flag: "isMin (map (withIsMin m) es ! j) = (j = i)"
      using j len lzs ej nj eq mi mn
      by (simp add: es withIsMin_def noError_def strict_equals_def dj [symmetric])
    have strict: "j \<noteq> i \<longrightarrow> less_number (distanceKm (rs ! i)) (distanceKm (rs ! j))"
      using less_number_total [OF ni nj] eq low mi dj di by auto
    have "result (map (withIsMin m) es ! j) = Some (rs ! j)"
      using j len lzs ej by (simp add: es withIsMin_def)
    with flag strict
    show "result (map (withIsMin m) es ! j) = Some (rs ! j)
          \<and> isMin (map (withIsMin m) es ! j) = (j = i)
          \<and> (j \<noteq> i \<longrightarrow> less_number (distanceKm (rs ! i)) (distanceKm (rs ! j)))"
      by simp
  qed
  moreover have "length (map (withIsMin m) es) = 4"
    using len lzs by (simp add: es)
  ultimately show ?thesis unfolding res using i by blast
qed

text \<open>Four routes of 12.35 km, 5 km, 7.5 km and 20 km.\<close>

theorem handleSubmit_unique_minimum_witness:
  "outcomes (sampleBrowser fourRoutes) (destZip formState) (sourceZips formState) [] =
     map Inr [result12345, result5000, result7500, result20000]
   \<and> NaN \<notin> set (map distanceKm [result12345, result5000, result7500, result20000])
   \<and> distinct (map distanceKm [result12345, result5000, result7500, result20000])
   \<and> length (results (fst (handleSubmit (sampleBrowser fourRoutes) formState []))) = 4
   \<and> (\<exists>i<4. \<forall>j<4.
        result (results (fst (handleSubmit (sampleBrowser fourRoutes) formState [])) ! j)
          = Some ([result12345, result5000, result7500, result20000] ! j)
        \<and> isMin (results (fst (handleSubmit (sampleBrowser fourRoutes) formState [])) ! j)
          = (j = i)
        \<and> (j \<noteq> i \<longrightarrow>
             less_number (distanceKm ([result12345, result5000, result7500, result20000] ! i))
               (distanceKm ([result12345, result5000, result7500, result20000] ! j))))"
proof -
  have nan: "NaN \<notin> set (map distanceKm [result12345, result5000, result7500, result20000])"
    by (simp add: result12345_def result5000_def result7500_def result20000_def)
  have dist: "distinct (map distanceKm [result12345, result5000, result7500, result20000])"
    by (simp add: result12345_def result5000_def result7500_def result20000_def)
  show ?thesis
    using handleSubmit_unique_minimum [OF outcomes_fourRoutes nan dist]
      outcomes_fourRoutes nan dist
    by blast
qed

text \<open>
  C1 as it was stated does not hold when a \<open>distanceKm\<close> is not-a-number. The first of
  four answers has status \<^verbatim>\<open>"OK"\<close> twice and empty distance and duration objects, so
  \<^verbatim>\<open>undefined / 1000\<close> makes its three fields not-a-number; the other routes are 5 km,
  7.5 km and 20 km. All four calls succeed, the four \<open>distanceKm\<close> values differ pairwise,
  \<^verbatim>\<open>Math.min\<close> is not-a-number, and no record is flagged.
\<close>

theorem handleSubmit_not_a_number_unflagged:
  "outcomes (sampleBrowser unmeasuredRoutes) (destZip formState) (sourceZips formState) [] =
     map Inr [resultNaN, result5000, result7500, result20000]
   \<and> distinct (map distanceKm [resultNaN, result5000, result7500, result20000])
   \<and> map isMin (results (fst (handleSubmit (sampleBrowser unmeasuredRoutes) formState []))) =
       [False, False, False, False]"
proof -
  have d: "distinct (map distanceKm [resultNaN, result5000, result7500, result20000])"
    by (simp add: resultNaN_def result5000_def result7500_def result20000_def)
  have "map isMin (results (fst (handleSubmit (sampleBrowser unmeasuredRoutes) formState []))) =
       [False, False, False, False]"
    unfolding results_handleSubmit entries_def outcomes_unmeasuredRoutes
    by (simp add: sourceZips_def formState_def entryOf_def validDistances_def noError_def
        Math_min_def withIsMin_def strict_equals_def resultNaN_def result5000_def
        result7500_def result20000_def)
  with d outcomes_unmeasuredRoutes show ?thesis by simp
qed

text \<open>
  C2. When all four adapter calls fail, the handler runs to its end (\<open>loading\<close> is false
  again) and leaves exactly four records, one per source in order, each with the message of
  its error, no result, and \<open>isMin\<close> false.
\<close>

theorem handleSubmit_all_failed:
  assumes "outcomes env (destZip s) (sourceZips s) sent = map Inl errs"
  shows "results (fst (handleSubmit env s sent)) =
           map2 (\<lambda>z e. \<lparr> source = z, result = None, error = Some (message e), isMin = False \<rparr>)
             (sourceZips s) errs
       \<and> length (results (fst (handleSubmit env s sent))) = 4
       \<and> loading (fst (handleSubmit env s sent)) = False"
proof -
  have len: "length errs = 4"
    using length_outcomes [of env "destZip s" "sourceZips s" sent] assms
    by (simp add: length_sourceZips)
  then have l: "length (sourceZips s) = length errs" by (simp add: length_sourceZips)
  have "results (fst (handleSubmit env s sent)) =
          map2 (\<lambda>z e. \<lparr> source = z, result = None, error = Some (message e), isMin = False \<rparr>)
            (sourceZips s) errs"
    using withIsMin_failed [OF l] by (simp add: results_handleSubmit entries_def assms)
  moreover have "loading (fst (handleSubmit env s sent)) = False"
    by (simp add: handleSubmit_eq)
  ultimately show ?thesis using l len by simp
qed

text \<open>A lost connection, a body that is not JSON, and two answers without a route.\<close>

theorem handleSubmit_all_failed_witness:
  "outcomes (sampleBrowser noRoutes) (destZip formState) (sourceZips formState) [] =
     map Inl fourErrors
   \<and> results (fst (handleSubmit (sampleBrowser noRoutes) formState [])) =
       [\<lparr> source = ''95131'', result = None, error = Some ''Failed to fetch'', isMin = False \<rparr>,
        \<lparr> source = '' 32220'', result = None,
          error = Some ''Unexpected end of JSON input'', isMin = False \<rparr>,
        \<lparr> source = ''07305 '', result = None,
          error = Some ''No route found from 07305 to 60601'', isMin = False \<rparr>,
        \<lparr> source = ''75050'', result = None,
          error = Some ''No route found from 75050 to 60601'', isMin = False \<rparr>]
   \<and> loading (fst (handleSubmit (sampleBrowser noRoutes) formState [])) = False"
  using handleSubmit_all_failed [OF outcomes_noRoutes] outcomes_noRoutes
  by (simp add: sourceZips_def formState_def fourErrors_def)

text \<open>
  C3, as amended. In a batch in which no failed call carries an empty message, every record
  with a result whose \<open>distanceKm\<close> is at most the \<open>distanceKm\<close> of every record with a
  result, under the comparison of numbers, has \<open>isMin\<close>: all the records that tie for the
  minimum are flagged, whatever their positions.
\<close>

theorem handleSubmit_ties_flagged:
  assumes msgs: "\<forall>e. Inl e \<in> set (outcomes env (destZip s) (sourceZips s) sent)
                   \<longrightarrow> message e \<noteq> []"
    and r: "r \<in> set (results (fst (handleSubmit env s sent)))"
    and res: "result r = Some x"
    and least: "\<forall>r' \<in> set (results (fst (handleSubmit env s sent))). \<forall>y.
                  result r' = Some y \<longrightarrow> less_eq_number (distanceKm x) (distanceKm y)"
  shows "isMin r"
proof -
  define es where "es = entries env (destZip s) (sourceZips s) sent"
  define m where "m = Math_min (validDistances es)"
  have results: "results (fst (handleSubmit env s sent)) = map (withIsMin m) es"
    by (simp add: results_handleSubmit m_def es_def)
  from r obtain e where e: "e \<in> set es" and re: "r = withIsMin m e"
    by (auto simp: results)
  from res re have rese: "result e = Some x" by simp
  with entries_cases [OF e [unfolded es_def]] have erre: "error e = None" by auto
  have valid: "\<And>v. v \<in> set (validDistances es) \<Longrightarrow>
                 \<exists>y::result. v = Some (distanceKm y) \<and> less_eq_number (distanceKm x) (distanceKm y)"
  proof -
    fix v assume "v \<in> set (validDistances es)"
    then obtain e' where e': "e' \<in> set es" and ne: "noError (error e')"
      and v: "v = map_option distanceKm (result e')"
      using validDistances_cases by blast
    from entries_cases [OF e' [unfolded es_def]] ne msgs
    obtain y where y: "result e' = Some y" by (auto simp: noError_def)
    have "withIsMin m e' \<in> set (results (fst (handleSubmit env s sent)))"
      using e' by (simp add: results)
    with least y have "less_eq_number (distanceKm x) (distanceKm y)" by auto
    with v y have "v = Some (distanceKm y) \<and> less_eq_number (distanceKm x) (distanceKm y)"
      by simp
    then show "\<exists>y::result. v = Some (distanceKm y) \<and> less_eq_number (distanceKm x) (distanceKm y)"
      by (rule exI)
  qed
  have num: "numeric (validDistances es)"
    using valid by (fastforce simp: numeric_def less_eq_number_def)
  have xin: "Some (distanceKm x) \<in> set (validDistances es)"
    using in_validDistances [OF e] rese erre by (simp add: noError_def)
  then have ne: "validDistances es \<noteq> []" by auto
  have low: "\<not> less_number (distanceKm x) m"
    using Math_min_numeric(2) [OF num xin] by (simp add: m_def)
  have "Some m \<in> set (validDistances es)"
    using Math_min_numeric(3) [OF num ne] by (simp add: m_def)
  with valid obtain y :: result where "Some m = Some (distanceKm y)"
    and "less_eq_number (distanceKm x) (distanceKm y)" by blast
  then have up: "less_eq_number (distanceKm x) m" by simp
  then have "distanceKm x = m"
    using low less_number_total [of "distanceKm x" m] by (auto simp: less_eq_number_def)
  with up have "strict_equals (distanceKm x) m"
    by (simp add: strict_equals_def less_eq_number_def)
  with rese erre show ?thesis by (simp add: re isMin_withIsMin noError_def)
qed

text \<open>Routes of 5000 m and 4999 m are both 5.00 km, and both are flagged.\<close>

theorem handleSubmit_ties_flagged_witness:
  "[] \<notin> set (map message [Thrown Error ''No route found from 07305 to 60601''])
   \<and> results (fst (handleSubmit (sampleBrowser tiedRoutes) formState [])) = tiedResults
   \<and> distanceKm result5000 = distanceKm result4999
   \<and> isMin (tiedResults ! 0) \<and> isMin (tiedResults ! 1)"
proof -
  let ?rs = "results (fst (handleSubmit (sampleBrowser tiedRoutes) formState []))"
  have msgs: "\<forall>e. Inl e \<in> set (outcomes (sampleBrowser tiedRoutes) (destZip formState)
                 (sourceZips formState) []) \<longrightarrow> message e \<noteq> []"
    by (auto simp: outcomes_tiedRoutes tiedOutcomes_def)
  have least: "\<forall>r' \<in> set ?rs. \<forall>y. result r' = Some y \<longrightarrow>
                 less_eq_number (Finite 5) (distanceKm y)"
    by (simp add: results_tiedRoutes tiedResults_def less_eq_number_def result5000_def
        result4999_def result20000_def)
  have r0: "tiedResults ! 0 \<in> set ?rs" and r1: "tiedResults ! 1 \<in> set ?rs"
    by (simp_all add: results_tiedRoutes tiedResults_def)
  have "isMin (tiedResults ! 0)"
    using handleSubmit_ties_flagged [OF msgs r0, of result5000] least
    by (simp add: tiedResults_def result5000_def)
  moreover have "isMin (tiedResults ! 1)"
    using handleSubmit_ties_flagged [OF msgs r1, of result4999] least
    by (simp add: tiedResults_def result4999_def)
  ultimately show ?thesis
    by (simp add: results_tiedRoutes result5000_def result4999_def)
qed

text \<open>
  C3 as it was stated does not hold when a failed call carries an empty message. Routes of
  5000 m and 4999 m tie at 5 km, below a route of 20 km, and the third request fails with
  a \<^verbatim>\<open>TypeError\<close> whose message is empty: \<^verbatim>\<open>!r.error\<close> keeps that record among the valid
  ones, its \<^verbatim>\<open>distanceKm\<close> is \<^verbatim>\<open>undefined\<close>, \<^verbatim>\<open>Math.min\<close> is not-a-number, and neither of
  the two tied records is flagged.
\<close>

theorem handleSubmit_empty_message_unflagged:
  "outcomes (sampleBrowser silentFailure) (destZip formState) (sourceZips formState) [] =
     [Inr result5000, Inr result4999, Inl (Thrown TypeError []), Inr result20000]
   \<and> distanceKm result5000 = Finite 5 \<and> distanceKm result4999 = Finite 5
   \<and> distanceKm result20000 = Finite 20
   \<and> results (fst (handleSubmit (sampleBrowser silentFailure) formState [])) =
       [\<lparr> source = ''95131'', result = Some result5000, error = None, isMin = False \<rparr>,
        \<lparr> source = '' 32220'', result = Some result4999, error = None, isMin = False \<rparr>,
        \<lparr> source = ''07305 '', result = None, error = Some [], isMin = False \<rparr>,
        \<lparr> source = ''75050'', result = Some result20000, error = None, isMin = False \<rparr>]"
proof -
  have "results (fst (handleSubmit (sampleBrowser silentFailure) formState [])) =
       [\<lparr> source = ''95131'', result = Some result5000, error = None, isMin = False \<rparr>,
        \<lparr> source = '' 32220'', result = Some result4999, error = None, isMin = False \<rparr>,
        \<lparr> source = ''07305 '', result = None, error = Some [], isMin = False \<rparr>,
        \<lparr> source = ''75050'', result = Some result20000, error = None, isMin = False \<rparr>]"
    unfolding results_handleSubmit entries_def outcomes_silentFailure
    by (simp add: sourceZips_def formState_def entryOf_def validDistances_def noError_def
        Math_min_def withIsMin_def strict_equals_def)
  with outcomes_silentFailure show ?thesis
    by (simp add: result5000_def result4999_def result20000_def)
qed

text \<open>
  C7. Whatever the four adapter outcomes are, the handler leaves exactly four records whose
  sources are the four sources in their order; the record at each position carries the
  result or the error message of the call at that position, so a failure does not stop the
  later calls: four calls are made and four requests are sent.
\<close>

theorem handleSubmit_one_record_per_source:
  "map source (results (fst (handleSubmit env s sent))) = sourceZips s
   \<and> length (results (fst (handleSubmit env s sent))) = 4
   \<and> length (outcomes env (destZip s) (sourceZips s) sent) = 4
   \<and> map (\<lambda>r. (result r, error r)) (results (fst (handleSubmit env s sent))) =
       map (\<lambda>out. case out of Inl e \<Rightarrow> (None, Some (message e)) | Inr x \<Rightarrow> (Some x, None))
         (outcomes env (destZip s) (sourceZips s) sent)
   \<and> length (snd (handleSubmit env s sent)) = length sent + 4"
proof -
  let ?outs = "outcomes env (destZip s) (sourceZips s) sent"
  have l: "length (sourceZips s) = length ?outs" by (simp add: length_outcomes)
  have "map source (results (fst (handleSubmit env s sent))) = sourceZips s"
    using map_source_map2 [OF l] by (simp add: results_handleSubmit entries_def comp_def)
  moreover have "map (\<lambda>r. (result r, error r)) (results (fst (handleSubmit env s sent))) =
       map (\<lambda>out. case out of Inl e \<Rightarrow> (None, Some (message e)) | Inr x \<Rightarrow> (Some x, None)) ?outs"
    using map_fields_map2 [OF l] by (simp add: results_handleSubmit entries_def comp_def)
  moreover have "length (results (fst (handleSubmit env s sent))) = 4"
    by (simp add: results_handleSubmit length_entries length_sourceZips)
  moreover have "length (snd (handleSubmit env s sent)) = length sent + 4"
    by (simp add: handleSubmit_eq length_sourceZips)
  ultimately show ?thesis by (simp add: length_outcomes length_sourceZips)
qed

text \<open>A failure at the third position, with a record after it.\<close>

theorem handleSubmit_one_record_per_source_witness:
  "map source (results (fst (handleSubmit (sampleBrowser tiedRoutes) formState []))) =
     [''95131'', '' 32220'', ''07305 '', ''75050'']
   \<and> map (\<lambda>r. (result r, error r))
        (results (fst (handleSubmit (sampleBrowser tiedRoutes) formState []))) =
       [(Some result5000, None), (Some result4999, None),
        (None, Some ''No route found from 07305 to 60601''), (Some result20000, None)]
   \<and> length (snd (handleSubmit (sampleBrowser tiedRoutes) formState [])) = 4"
  using handleSubmit_one_record_per_source [of "sampleBrowser tiedRoutes" formState "[]",
      unfolded outcomes_tiedRoutes]
  by (simp add: tiedOutcomes_def sourceZips_def formState_def)

text \<open>
  C8. The requests sent are those for the trimmed sources and the trimmed destination, in
  order; the record at each position carries the source as it was entered, untrimmed, and
  the result or the error message of the adapter called with the trimmed source and the
  trimmed destination.
\<close>

theorem handleSubmit_trims_arguments:
  "snd (handleSubmit env s sent) =
     sent @ map (\<lambda>z. url (trim z) (trim (destZip s))) (sourceZips s)
   \<and> map source (results (fst (handleSubmit env s sent))) = sourceZips s
   \<and> (\<forall>i<4. map (\<lambda>r. (result r, error r)) (results (fst (handleSubmit env s sent))) ! i =
         (case fst (getDistance env (trim (sourceZips s ! i)) (trim (destZip s))
                 (sent @ map (\<lambda>z. url (trim z) (trim (destZip s))) (take i (sourceZips s)))) of
            Inl e \<Rightarrow> (None, Some (message e))
          | Inr x \<Rightarrow> (Some x, None)))"
proof -
  let ?outs = "outcomes env (destZip s) (sourceZips s) sent"
  have l: "length (sourceZips s) = length ?outs" by (simp add: length_outcomes)
  have a: "map source (results (fst (handleSubmit env s sent))) = sourceZips s"
    using map_source_map2 [OF l] by (simp add: results_handleSubmit entries_def comp_def)
  have b: "map (\<lambda>r. (result r, error r)) (results (fst (handleSubmit env s sent))) =
       map (\<lambda>out. case out of Inl e \<Rightarrow> (None, Some (message e)) | Inr x \<Rightarrow> (Some x, None)) ?outs"
    using map_fields_map2 [OF l] by (simp add: results_handleSubmit entries_def comp_def)
  have c: "snd (handleSubmit env s sent) =
     sent @ map (\<lambda>z. url (trim z) (trim (destZip s))) (sourceZips s)"
    by (simp add: handleSubmit_eq)
  have d: "\<forall>i<4. map (\<lambda>r. (result r, error r)) (results (fst (handleSubmit env s sent))) ! i =
         (case fst (getDistance env (trim (sourceZips s ! i)) (trim (destZip s))
                 (sent @ map (\<lambda>z. url (trim z) (trim (destZip s))) (take i (sourceZips s)))) of
            Inl e \<Rightarrow> (None, Some (message e))
          | Inr x \<Rightarrow> (Some x, None))"
  proof (intro allI impI)
    fix i :: nat
    assume i: "i < 4"
    then have i': "i < length (sourceZips s)" by (simp add: length_sourceZips)
    with l have "i < length ?outs" by simp
    then show "map (\<lambda>r. (result r, error r)) (results (fst (handleSubmit env s sent))) ! i =
         (case fst (getDistance env (trim (sourceZips s ! i)) (trim (destZip s))
                 (sent @ map (\<lambda>z. url (trim z) (trim (destZip s))) (take i (sourceZips s)))) of
            Inl e \<Rightarrow> (None, Some (message e))
          | Inr x \<Rightarrow> (Some x, None))"
      unfolding b using nth_outcomes [OF i', of env "destZip s" sent] by simp
  qed
  from a c d show ?thesis by blast
qed

text \<open>Sources and a destination entered with spaces around them.\<close>

theorem handleSubmit_trims_arguments_witness:
  "snd (handleSubmit (sampleBrowser tiedRoutes) formState []) =
     [url ''95131'' ''60601'', url ''32220'' ''60601'', url ''07305'' ''60601'',
      url ''75050'' ''60601'']
   \<and> map source (results (fst (handleSubmit (sampleBrowser tiedRoutes) formState []))) =
       [''95131'', '' 32220'', ''07305 '', ''75050'']
   \<and> map (\<lambda>r. (result r, error r))
         (results (fst (handleSubmit (sampleBrowser tiedRoutes) formState []))) ! 1 =
       (case fst (getDistance (sampleBrowser tiedRoutes) ''32220'' ''60601''
                    [url ''95131'' ''60601'']) of
          Inl e \<Rightarrow> (None, Some (message e))
        | Inr x \<Rightarrow> (Some x, None))"
proof -
  note t = handleSubmit_trims_arguments [of "sampleBrowser tiedRoutes" formState "[]"]
  from t have a: "snd (handleSubmit (sampleBrowser tiedRoutes) formState []) =
     [url ''95131'' ''60601'', url ''32220'' ''60601'', url ''07305'' ''60601'',
      url ''75050'' ''60601'']"
    by (simp add: sourceZips_def formState_def trim_samples)
  from t have b: "map source (results (fst (handleSubmit (sampleBrowser tiedRoutes) formState []))) =
       [''95131'', '' 32220'', ''07305 '', ''75050'']"
    by (simp add: sourceZips_def formState_def)
  have one: "(1::nat) < 4" by simp
  from t one have "map (\<lambda>r. (result r, error r))
         (results (fst (handleSubmit (sampleBrowser tiedRoutes) formState []))) ! 1 =
         (case fst (getDistance (sampleBrowser tiedRoutes) (trim (sourceZips formState ! 1))
                 (trim (destZip formState))
                 ([] @ map (\<lambda>z. url (trim z) (trim (destZip formState)))
                        (take 1 (sourceZips formState)))) of
            Inl e \<Rightarrow> (None, Some (message e))
          | Inr x \<Rightarrow> (Some x, None))"
    by blast
  then have c: "map (\<lambda>r. (result r, error r))
         (results (fst (handleSubmit (sampleBrowser tiedRoutes) formState []))) ! 1 =
       (case fst (getDistance (sampleBrowser tiedRoutes) ''32220'' ''60601''
                    [url ''95131'' ''60601'']) of
          Inl e \<Rightarrow> (None, Some (message e))
        | Inr x \<Rightarrow> (Some x, None))"
    by (simp add: sourceZips_def formState_def trim_samples)
  from a b c show ?thesis by simp
qed

text \<open>
  C9. Every record the handler leaves has either a result or an error message, never both
  and never neither; and a record with \<open>isMin\<close> has a result whose \<open>distanceKm\<close> is at most
  the \<open>distanceKm\<close> of every record with a result (so it is the minimum among them, being
  one of them).
\<close>

theorem handleSubmit_record_invariant:
  assumes r: "r \<in> set (results (fst (handleSubmit env s sent)))"
  shows "(result r \<noteq> None) \<noteq> (error r \<noteq> None)
       \<and> (isMin r \<longrightarrow>
            (\<exists>x. result r = Some x
               \<and> (\<forall>r' \<in> set (results (fst (handleSubmit env s sent))). \<forall>y.
                    result r' = Some y \<longrightarrow> less_eq_number (distanceKm x) (distanceKm y))))"
proof -
  define es where "es = entries env (destZip s) (sourceZips s) sent"
  define m where "m = Math_min (validDistances es)"
  have results: "results (fst (handleSubmit env s sent)) = map (withIsMin m) es"
    by (simp add: results_handleSubmit m_def es_def)
  from r obtain e where e: "e \<in> set es" and re: "r = withIsMin m e"
    by (auto simp: results)
  have one: "(result r \<noteq> None) \<noteq> (error r \<noteq> None)"
    using entries_cases [OF e [unfolded es_def]] by (auto simp: re)
  have flag: "\<exists>x. result r = Some x
               \<and> (\<forall>r' \<in> set (results (fst (handleSubmit env s sent))). \<forall>y.
                    result r' = Some y \<longrightarrow> less_eq_number (distanceKm x) (distanceKm y))"
    if "isMin r"
  proof -
    from that obtain x where x: "result e = Some x" and eq: "strict_equals (distanceKm x) m"
      by (auto simp: re isMin_withIsMin)
    from eq have mx: "m = distanceKm x" and mn: "m \<noteq> NaN" by (auto simp: strict_equals_def)
    have num: "numeric (validDistances es)"
      using Math_min_NaN [of "validDistances es"] mn by (auto simp: m_def)
    have "less_eq_number (distanceKm x) (distanceKm y)"
      if r': "r' \<in> set (results (fst (handleSubmit env s sent)))" and y: "result r' = Some y"
      for r' y
    proof -
      from r' obtain e' where e': "e' \<in> set es" and re': "r' = withIsMin m e'"
        by (auto simp: results)
      from y re' have ye: "result e' = Some y" by simp
      with entries_cases [OF e' [unfolded es_def]] have "error e' = None" by auto
      with in_validDistances [OF e'] ye have yin: "Some (distanceKm y) \<in> set (validDistances es)"
        by (simp add: noError_def)
      with num have "distanceKm y \<noteq> NaN" by (auto simp: numeric_def)
      moreover have "\<not> less_number (distanceKm y) m"
        using Math_min_numeric(2) [OF num yin] by (simp add: m_def)
      ultimately show ?thesis using mn by (simp add: less_eq_number_def mx)
    qed
    with x show ?thesis by (auto simp: re)
  qed
  from one flag show ?thesis by blast
qed

text \<open>The second of the two tied records.\<close>

theorem handleSubmit_record_invariant_witness:
  "tiedResults ! 1 \<in> set (results (fst (handleSubmit (sampleBrowser tiedRoutes) formState [])))
   \<and> (result (tiedResults ! 1) \<noteq> None) \<noteq> (error (tiedResults ! 1) \<noteq> None)
   \<and> isMin (tiedResults ! 1)
   \<and> (\<exists>x. result (tiedResults ! 1) = Some x
        \<and> (\<forall>r' \<in> set (results (fst (handleSubmit (sampleBrowser tiedRoutes) formState []))).
             \<forall>y. result r' = Some y \<longrightarrow> less_eq_number (distanceKm x) (distanceKm y)))"
proof -
  have r1: "tiedResults ! 1 \<in> set (results (fst (handleSubmit (sampleBrowser tiedRoutes) formState [])))"
    by (simp add: results_tiedRoutes tiedResults_def)
  have m: "isMin (tiedResults ! 1)" by (simp add: tiedResults_def)
  show ?thesis
    using handleSubmit_record_invariant [OF r1] r1 m by blast
qed

text \<open>
  C10. Two runs of the handler on the same four sources whose adapter outcomes agree at
  every position (the same result, or an error with the same message) leave the same
  records, flags included, whatever the browsers, the earlier requests and the rest of the
  two states are.
\<close>

theorem handleSubmit_deterministic:
  assumes "sourceZips s1 = sourceZips s2"
    and "map (map_sum message id) (outcomes env1 (destZip s1) (sourceZips s1) sent1) =
         map (map_sum message id) (outcomes env2 (destZip s2) (sourceZips s2) sent2)"
  shows "results (fst (handleSubmit env1 s1 sent1)) = results (fst (handleSubmit env2 s2 sent2))"
proof -
  have "entries env1 (destZip s1) (sourceZips s1) sent1 =
        entries env2 (destZip s2) (sourceZips s2) sent2"
    unfolding entries_def map2_entryOf_message using assms by simp
  then show ?thesis by (simp add: results_handleSubmit)
qed

text \<open>A second run from a state that holds earlier results, after an earlier request.\<close>

theorem handleSubmit_deterministic_witness:
  "sourceZips formState = sourceZips otherState
   \<and> results formState \<noteq> results otherState
   \<and> results (fst (handleSubmit (sampleBrowser tiedRoutes) formState [])) =
       results (fst (handleSubmit (sampleBrowser tiedRoutes) otherState
                       [url ''95131'' ''60601'']))"
proof -
  have z: "sourceZips formState = sourceZips otherState"
    by (simp add: sourceZips_def otherState_def)
  have o1: "outcomes (sampleBrowser tiedRoutes) (destZip formState) (sourceZips formState) [] =
      tiedOutcomes"
    by (rule outcomes_tiedRoutes)
  have o2: "outcomes (sampleBrowser tiedRoutes) (destZip otherState) (sourceZips otherState)
      [url ''95131'' ''60601''] = tiedOutcomes"
    using outcomes_tiedRoutes_sent [of "[url ''95131'' ''60601'']"]
    by (simp add: sourceZips_def otherState_def formState_def)
  have "results formState \<noteq> results otherState"
    by (simp add: otherState_def formState_def tiedResults_def)
  with z handleSubmit_deterministic [OF z, of "sampleBrowser tiedRoutes" "[]"
      "sampleBrowser tiedRoutes" "[url ''95131'' ''60601'']"] o1 o2
  show ?thesis by simp
qed

end
